theory Spec2Isabelle
  imports Main "HOL-Library.Word" "HOL-Library.Signed_Division"
begin

unbundle bit_operations_syntax

section \<open>A2DP codec configuration: data model\<close>

text \<open>
  The development follows \<^verbatim>\<open>system/stack/a2dp/a2dp_codec_config.cc\<close>.

  A codec information buffer (\<^verbatim>\<open>const uint8_t* p_codec_info\<close>,
  \<^verbatim>\<open>uint8_t ota_codec_config_[AVDT_CODEC_SIZE]\<close>, the offload array
  \<^verbatim>\<open>codec_info\<close>) is a C byte array that the code only ever reads and writes
  at fixed offsets. It is modelled as the map from offset to byte.
\<close>

type_synonym u8 = "8 word"
type_synonym bytes = "nat \<Rightarrow> u8"

text \<open>
  \<^verbatim>\<open>btav_a2dp_codec_config_t\<close>. The enumerations (codec index, priority, sample
  rate, bits per sample, channel mode) are C enums and are kept as their integer
  values; the four codec specific fields are \<^verbatim>\<open>int64_t\<close>.
\<close>

record btav_a2dp_codec_config_t =
  codec_type :: int
  codec_priority :: int
  sample_rate :: int
  bits_per_sample :: int
  channel_mode :: int
  codec_specific_1 :: "64 word"
  codec_specific_2 :: "64 word"
  codec_specific_3 :: "64 word"
  codec_specific_4 :: "64 word"

text \<open>
  Enumerators of \<^verbatim>\<open>bt_av.h\<close> and the codec type tags and offsets of
  \<^verbatim>\<open>avdt_api.h\<close> and \<^verbatim>\<open>a2dp_constants.h\<close>. These headers are not part of
  the file under study, so their values are parameters of the model.
  \<^verbatim>\<open>EXCLUDE_NONSTANDARD_CODECS\<close> is the preprocessor switch of the file.
\<close>

record a2dp_constants =
  EXCLUDE_NONSTANDARD_CODECS :: bool
  AVDT_CODEC_TYPE_INDEX :: nat
  A2DP_MEDIA_CT_SBC :: u8
  A2DP_MEDIA_CT_AAC :: u8
  A2DP_MEDIA_CT_NON_A2DP :: u8
  BTAV_A2DP_CODEC_INDEX_MAX :: int
  BTAV_A2DP_CODEC_PRIORITY_DEFAULT :: int
  BTAV_A2DP_CODEC_SAMPLE_RATE_NONE :: int
  BTAV_A2DP_CODEC_BITS_PER_SAMPLE_NONE :: int
  BTAV_A2DP_CODEC_CHANNEL_MODE_NONE :: int
  sizeof_offload_codec_info :: nat

text \<open>
  The codec family entry points the dispatch layer forwards to
  (\<^verbatim>\<open>a2dp_sbc.h\<close>, \<^verbatim>\<open>a2dp_aac.h\<close>, \<^verbatim>\<open>a2dp_vendor.h\<close>). Their bodies are not
  part of the file under study; each is a parameter of the model.
\<close>

record sbc_family =
  A2DP_IsSourceCodecValidSbc :: "bytes \<Rightarrow> bool"
  A2DP_IsSinkCodecValidSbc :: "bytes \<Rightarrow> bool"
  A2DP_IsPeerSourceCodecValidSbc :: "bytes \<Rightarrow> bool"
  A2DP_IsPeerSinkCodecValidSbc :: "bytes \<Rightarrow> bool"
  A2DP_CodecNameSbc :: "bytes \<Rightarrow> string"
  A2DP_CodecEqualsSbc :: "bytes \<Rightarrow> bytes \<Rightarrow> bool"
  A2DP_GetTrackSampleRateSbc :: "bytes \<Rightarrow> int"
  A2DP_SourceCodecIndexSbc :: "bytes \<Rightarrow> int"

record aac_family =
  A2DP_IsSourceCodecValidAac :: "bytes \<Rightarrow> bool"
  A2DP_IsSinkCodecValidAac :: "bytes \<Rightarrow> bool"
  A2DP_IsPeerSourceCodecValidAac :: "bytes \<Rightarrow> bool"
  A2DP_IsPeerSinkCodecValidAac :: "bytes \<Rightarrow> bool"
  A2DP_CodecNameAac :: "bytes \<Rightarrow> string"
  A2DP_CodecEqualsAac :: "bytes \<Rightarrow> bytes \<Rightarrow> bool"
  A2DP_GetTrackSampleRateAac :: "bytes \<Rightarrow> int"
  A2DP_SourceCodecIndexAac :: "bytes \<Rightarrow> int"

record vendor_family =
  A2DP_IsVendorSourceCodecValid :: "bytes \<Rightarrow> bool"
  A2DP_IsVendorSinkCodecValid :: "bytes \<Rightarrow> bool"
  A2DP_IsVendorPeerSourceCodecValid :: "bytes \<Rightarrow> bool"
  A2DP_IsVendorPeerSinkCodecValid :: "bytes \<Rightarrow> bool"
  A2DP_VendorCodecName :: "bytes \<Rightarrow> string"
  A2DP_VendorCodecEquals :: "bytes \<Rightarrow> bytes \<Rightarrow> bool"
  A2DP_VendorGetTrackSampleRate :: "bytes \<Rightarrow> int"
  A2DP_VendorSourceCodecIndex :: "bytes \<Rightarrow> int"
  A2DP_VendorUsesRtpHeader :: "bool \<Rightarrow> bytes \<Rightarrow> bool"
  A2DP_VendorCodecGetVendorId :: "bytes \<Rightarrow> 32 word"
  A2DP_VendorCodecGetCodecId :: "bytes \<Rightarrow> 16 word"

text \<open>
  Constants of \<^verbatim>\<open>a2dp_vendor_ldac_constants.h\<close>, of the LHDC headers and of the
  offload layout, all used by \<^verbatim>\<open>getCodecSpecificConfig\<close> and all declared outside
  the file under study. Masks and field values of one configuration byte are bytes,
  the quality tiers compared with \<^verbatim>\<open>codec_specific_1 & 0x0F\<close> are 64 bit values, the
  offload quality tiers are \<^verbatim>\<open>uint16_t\<close>, offsets into the offload array and shift
  amounts are naturals.
\<close>

record ldac_constants =
  A2DP_LDAC_VENDOR_ID :: "32 word"
  A2DP_LDAC_CODEC_ID :: "16 word"
  A2DP_LDAC_QUALITY_ABR_OFFLOAD :: u8
  A2DP_LDAC_QUALITY_HIGH :: u8
  A2DP_LDAC_QUALITY_MID :: u8
  A2DP_LDAC_QUALITY_LOW :: u8

record lhdc_constants =
  A2DP_LHDC_VENDOR_ID :: "32 word"
  A2DP_LHDCV2_CODEC_ID :: "16 word"
  A2DP_LHDCV3_CODEC_ID :: "16 word"
  A2DP_LHDCV5_CODEC_ID :: "16 word"
  A2DP_LHDC_VERSION_MASK :: u8
  A2DP_LHDC_VER2 :: u8
  A2DP_LHDC_VER3 :: u8
  A2DP_LHDC_VER6 :: u8
  A2DP_LHDC_FEATURE_LLAC :: u8
  A2DP_LHDC_FEATURE_LHDCV4 :: u8
  A2DP_LHDC_MAX_BIT_RATE_MASK :: u8
  A2DP_LHDC_MAX_BIT_RATE_400K :: u8
  A2DP_LHDC_MAX_BIT_RATE_500K :: u8
  A2DP_LHDC_FEATURE_MIN_BR :: u8
  A2DP_LHDC_LL_MASK :: u8
  A2DP_LHDC_FEATURE_AR :: u8
  A2DP_LHDC_FEATURE_JAS :: u8
  A2DP_LHDC_FEATURE_META :: u8
  A2DP_LHDC_CH_SPLIT_MSK :: u8
  A2DP_LHDC_CH_SPLIT_NONE :: u8
  A2DP_LHDC_CH_SPLIT_TWS :: u8

record lhdc_quality_constants =
  A2DP_LHDC_QUALITY_LOW0 :: "64 word"
  A2DP_LHDC_QUALITY_LOW1 :: "64 word"
  A2DP_LHDC_QUALITY_LOW2 :: "64 word"
  A2DP_LHDC_QUALITY_LOW3 :: "64 word"
  A2DP_LHDC_QUALITY_LOW4 :: "64 word"
  A2DP_LHDC_QUALITY_LOW :: "64 word"
  A2DP_LHDC_QUALITY_MID :: "64 word"
  A2DP_LHDC_QUALITY_HIGH :: "64 word"
  A2DP_LHDC_QUALITY_HIGH1 :: "64 word"
  A2DP_LHDC_QUALITY_ABR :: "64 word"

record lhdcv5_constants =
  A2DP_LHDCV5_VERSION_MASK :: u8
  A2DP_LHDCV5_VER_1 :: u8
  A2DP_LHDCV5_MAX_BIT_RATE_MASK :: u8
  A2DP_LHDCV5_MAX_BIT_RATE_400K :: u8
  A2DP_LHDCV5_MAX_BIT_RATE_500K :: u8
  A2DP_LHDCV5_MAX_BIT_RATE_900K :: u8
  A2DP_LHDCV5_MIN_BIT_RATE_MASK :: u8
  A2DP_LHDCV5_MIN_BIT_RATE_64K :: u8
  A2DP_LHDCV5_MIN_BIT_RATE_128K :: u8
  A2DP_LHDCV5_MIN_BIT_RATE_256K :: u8
  A2DP_LHDCV5_FRAME_LEN_MASK :: u8
  A2DP_LHDCV5_FEATURE_LL :: u8
  A2DP_LHDCV5_FEATURE_AR :: u8
  A2DP_LHDCV5_FEATURE_JAS :: u8
  A2DP_LHDCV5_FEATURE_META :: u8
  A2DP_LHDCV5_AR_ON :: u8

record offload_layout =
  A2DP_OFFLOAD_LHDC_CFG_VER :: nat
  A2DP_OFFLOAD_LHDC_CFG_BITRATE_L :: nat
  A2DP_OFFLOAD_LHDC_CFG_BITRATE_H :: nat
  A2DP_OFFLOAD_LHDC_CFG_MAXBITRATE_L :: nat
  A2DP_OFFLOAD_LHDC_CFG_MAXBITRATE_H :: nat
  A2DP_OFFLOAD_LHDC_CFG_MINBITRATE_L :: nat
  A2DP_OFFLOAD_LHDC_CFG_MINBITRATE_H :: nat
  A2DP_OFFLOAD_LHDC_CFG_FRAMEDUR :: nat
  A2DP_OFFLOAD_LHDC_CFG_INTERVAL :: nat
  A2DP_OFFLOAD_LHDC_CFG_SPEC1 :: nat
  A2DP_OFFLOAD_LHDC_CFG_SPEC2 :: nat
  A2DP_OFFLOAD_LHDCV2_VER_1 :: nat
  A2DP_OFFLOAD_LHDCV3_V3_ONLY :: nat
  A2DP_OFFLOAD_LHDCV3_V4_ONLY :: nat
  A2DP_OFFLOAD_LHDCV3_LLAC :: nat
  A2DP_OFFLOAD_LHDCV5_VER_1 :: nat
  A2DP_OFFLOAD_LHDC_DATA_INTERVAL_10MS :: u8
  A2DP_OFFLOAD_LHDC_DATA_INTERVAL_20MS :: u8
  A2DP_OFFLOAD_LHDC_FRAME_DURATION_5000US :: u8
  A2DP_OFFLOAD_LHDC_SPECIFIC_FEATURE_AR :: u8
  A2DP_OFFLOAD_LHDC_SPECIFIC_FEATURE_JAS :: u8
  A2DP_OFFLOAD_LHDC_SPECIFIC_FEATURE_META :: u8
  A2DP_OFFLOAD_LHDC_SPECIFIC_FEATURE_SPLIT :: u8
  A2DP_OFFLOAD_LHDC_SPECIFIC_ACTION_AR_ON :: u8

record offload_quality_constants =
  A2DP_OFFLOAD_LHDC_QUALITY_LOW0 :: "16 word"
  A2DP_OFFLOAD_LHDC_QUALITY_LOW1 :: "16 word"
  A2DP_OFFLOAD_LHDC_QUALITY_LOW2 :: "16 word"
  A2DP_OFFLOAD_LHDC_QUALITY_LOW3 :: "16 word"
  A2DP_OFFLOAD_LHDC_QUALITY_LOW4 :: "16 word"
  A2DP_OFFLOAD_LHDC_QUALITY_LOW :: "16 word"
  A2DP_OFFLOAD_LHDC_QUALITY_MID :: "16 word"
  A2DP_OFFLOAD_LHDC_QUALITY_HIGH :: "16 word"
  A2DP_OFFLOAD_LHDC_QUALITY_HIGH1 :: "16 word"
  A2DP_OFFLOAD_LHDC_QUALITY_ABR :: "16 word"

record a2dp_env =
  cst :: a2dp_constants
  sbc :: sbc_family
  aac :: aac_family
  vendor :: vendor_family
  ldac :: ldac_constants
  lhdc :: lhdc_constants
  lhdcq :: lhdc_quality_constants
  lhdcv5 :: lhdcv5_constants
  layout :: offload_layout
  offq :: offload_quality_constants

section \<open>Capability dispatch\<close>

definition A2DP_GetCodecType :: "a2dp_env \<Rightarrow> bytes \<Rightarrow> u8" where
  "A2DP_GetCodecType E p_codec_info = p_codec_info (AVDT_CODEC_TYPE_INDEX (cst E))"

text \<open>
  Every dispatcher is the same \<^verbatim>\<open>switch (codec_type)\<close>: the SBC case, then, unless
  \<^verbatim>\<open>EXCLUDE_NONSTANDARD_CODECS\<close> is defined, the AAC and the vendor case, then
  \<^verbatim>\<open>default\<close>. \<open>codec_switch\<close> is that statement; its last argument is what
  follows the switch. The labels of a C switch are different values, so that testing
  them in the order of the source is testing them in any order.
\<close>

definition codec_switch :: "a2dp_env \<Rightarrow> u8 \<Rightarrow> 'a \<Rightarrow> 'a \<Rightarrow> 'a \<Rightarrow> 'a \<Rightarrow> 'a" where
  "codec_switch E tag on_sbc on_aac on_vendor otherwise =
     (if tag = A2DP_MEDIA_CT_SBC (cst E) then on_sbc
      else if \<not> EXCLUDE_NONSTANDARD_CODECS (cst E) \<and> tag = A2DP_MEDIA_CT_AAC (cst E)
        then on_aac
      else if \<not> EXCLUDE_NONSTANDARD_CODECS (cst E) \<and> tag = A2DP_MEDIA_CT_NON_A2DP (cst E)
        then on_vendor
      else otherwise)"

definition A2DP_IsSourceCodecValid :: "a2dp_env \<Rightarrow> bytes \<Rightarrow> bool" where
  "A2DP_IsSourceCodecValid E p_codec_info =
     codec_switch E (A2DP_GetCodecType E p_codec_info)
       (A2DP_IsSourceCodecValidSbc (sbc E) p_codec_info)
       (A2DP_IsSourceCodecValidAac (aac E) p_codec_info)
       (A2DP_IsVendorSourceCodecValid (vendor E) p_codec_info)
       False"

definition A2DP_IsSinkCodecValid :: "a2dp_env \<Rightarrow> bytes \<Rightarrow> bool" where
  "A2DP_IsSinkCodecValid E p_codec_info =
     codec_switch E (A2DP_GetCodecType E p_codec_info)
       (A2DP_IsSinkCodecValidSbc (sbc E) p_codec_info)
       (A2DP_IsSinkCodecValidAac (aac E) p_codec_info)
       (A2DP_IsVendorSinkCodecValid (vendor E) p_codec_info)
       False"

definition A2DP_IsPeerSourceCodecValid :: "a2dp_env \<Rightarrow> bytes \<Rightarrow> bool" where
  "A2DP_IsPeerSourceCodecValid E p_codec_info =
     codec_switch E (A2DP_GetCodecType E p_codec_info)
       (A2DP_IsPeerSourceCodecValidSbc (sbc E) p_codec_info)
       (A2DP_IsPeerSourceCodecValidAac (aac E) p_codec_info)
       (A2DP_IsVendorPeerSourceCodecValid (vendor E) p_codec_info)
       False"

definition A2DP_IsPeerSinkCodecValid :: "a2dp_env \<Rightarrow> bytes \<Rightarrow> bool" where
  "A2DP_IsPeerSinkCodecValid E p_codec_info =
     codec_switch E (A2DP_GetCodecType E p_codec_info)
       (A2DP_IsPeerSinkCodecValidSbc (sbc E) p_codec_info)
       (A2DP_IsPeerSinkCodecValidAac (aac E) p_codec_info)
       (A2DP_IsVendorPeerSinkCodecValid (vendor E) p_codec_info)
       False"

text \<open>
  \<^verbatim>\<open>A2DP_UsesRtpHeader\<close> is not a switch: every tag but the vendor one answers
  true at once.
\<close>

definition A2DP_UsesRtpHeader :: "a2dp_env \<Rightarrow> bool \<Rightarrow> bytes \<Rightarrow> bool" where
  "A2DP_UsesRtpHeader E content_protection_enabled p_codec_info =
     (if A2DP_GetCodecType E p_codec_info \<noteq> A2DP_MEDIA_CT_NON_A2DP (cst E) then True
      else if \<not> EXCLUDE_NONSTANDARD_CODECS (cst E)
        then A2DP_VendorUsesRtpHeader (vendor E) content_protection_enabled p_codec_info
      else True)"

definition A2DP_CodecName :: "a2dp_env \<Rightarrow> bytes \<Rightarrow> string" where
  "A2DP_CodecName E p_codec_info =
     codec_switch E (A2DP_GetCodecType E p_codec_info)
       (A2DP_CodecNameSbc (sbc E) p_codec_info)
       (A2DP_CodecNameAac (aac E) p_codec_info)
       (A2DP_VendorCodecName (vendor E) p_codec_info)
       ''UNKNOWN CODEC''"

definition A2DP_CodecEquals :: "a2dp_env \<Rightarrow> bytes \<Rightarrow> bytes \<Rightarrow> bool" where
  "A2DP_CodecEquals E p_codec_info_a p_codec_info_b =
     (let codec_type_a = A2DP_GetCodecType E p_codec_info_a;
          codec_type_b = A2DP_GetCodecType E p_codec_info_b
      in if codec_type_a \<noteq> codec_type_b then False
         else codec_switch E codec_type_a
                (A2DP_CodecEqualsSbc (sbc E) p_codec_info_a p_codec_info_b)
                (A2DP_CodecEqualsAac (aac E) p_codec_info_a p_codec_info_b)
                (A2DP_VendorCodecEquals (vendor E) p_codec_info_a p_codec_info_b)
                False)"

definition A2DP_GetTrackSampleRate :: "a2dp_env \<Rightarrow> bytes \<Rightarrow> int" where
  "A2DP_GetTrackSampleRate E p_codec_info =
     codec_switch E (A2DP_GetCodecType E p_codec_info)
       (A2DP_GetTrackSampleRateSbc (sbc E) p_codec_info)
       (A2DP_GetTrackSampleRateAac (aac E) p_codec_info)
       (A2DP_VendorGetTrackSampleRate (vendor E) p_codec_info)
       (- 1)"

definition A2DP_SourceCodecIndex :: "a2dp_env \<Rightarrow> bytes \<Rightarrow> int" where
  "A2DP_SourceCodecIndex E p_codec_info =
     codec_switch E (A2DP_GetCodecType E p_codec_info)
       (A2DP_SourceCodecIndexSbc (sbc E) p_codec_info)
       (A2DP_SourceCodecIndexAac (aac E) p_codec_info)
       (A2DP_VendorSourceCodecIndex (vendor E) p_codec_info)
       (BTAV_A2DP_CODEC_INDEX_MAX (cst E))"

section \<open>The codec descriptor\<close>

text \<open>
  The state of one \<^verbatim>\<open>A2dpCodecConfig\<close> object. \<^verbatim>\<open>codec_specific_1 .. 4\<close> and the
  enumerations are as in \<^verbatim>\<open>btav_a2dp_codec_config_t\<close>; the three wire buffers are
  byte arrays of size \<^verbatim>\<open>AVDT_CODEC_SIZE\<close>. A C++ member \<^verbatim>\<open>x_\<close> is the
  field \<open>x_m\<close> here.
\<close>

record A2dpCodecConfig =
  codec_index_m :: int
  default_codec_priority_m :: int
  codec_priority_m :: int
  codec_config_m :: btav_a2dp_codec_config_t
  codec_capability_m :: btav_a2dp_codec_config_t
  codec_local_capability_m :: btav_a2dp_codec_config_t
  codec_selectable_capability_m :: btav_a2dp_codec_config_t
  codec_user_config_m :: btav_a2dp_codec_config_t
  codec_audio_config_m :: btav_a2dp_codec_config_t
  ota_codec_config_m :: bytes
  ota_codec_peer_capability_m :: bytes
  ota_codec_peer_config_m :: bytes

definition codecIndex :: "A2dpCodecConfig \<Rightarrow> int" where
  "codecIndex this = codec_index_m this"

definition codecPriority :: "A2dpCodecConfig \<Rightarrow> int" where
  "codecPriority this = codec_priority_m this"

definition getCodecConfig :: "A2dpCodecConfig \<Rightarrow> btav_a2dp_codec_config_t" where
  "getCodecConfig this = codec_config_m this"

definition getCodecUserConfig :: "A2dpCodecConfig \<Rightarrow> btav_a2dp_codec_config_t" where
  "getCodecUserConfig this = codec_user_config_m this"

definition getCodecAudioConfig :: "A2dpCodecConfig \<Rightarrow> btav_a2dp_codec_config_t" where
  "getCodecAudioConfig this = codec_audio_config_m this"

text \<open>
  \<^verbatim>\<open>setDefaultCodecPriority\<close>: the computed default is
  \<^verbatim>\<open>uint32_t priority = 1000 * (codec_index_ + 1) + 1\<close>, cast back to the priority
  enumeration; the conversion to 32 bits and back to a signed value is written out.
\<close>

definition setDefaultCodecPriority :: "a2dp_env \<Rightarrow> A2dpCodecConfig \<Rightarrow> A2dpCodecConfig" where
  "setDefaultCodecPriority E this =
     (let this1 =
        (if default_codec_priority_m this \<noteq> BTAV_A2DP_CODEC_PRIORITY_DEFAULT (cst E)
         then this\<lparr>codec_priority_m := default_codec_priority_m this\<rparr>
         else
           (let priority = (word_of_int (1000 * (codec_index_m this + 1) + 1) :: 32 word)
            in this\<lparr>codec_priority_m := sint priority\<rparr>))
      in this1\<lparr>codec_config_m := (codec_config_m this1)\<lparr>codec_priority := codec_priority_m this1\<rparr>\<rparr>)"

definition setCodecPriority :: "a2dp_env \<Rightarrow> A2dpCodecConfig \<Rightarrow> int \<Rightarrow> A2dpCodecConfig" where
  "setCodecPriority E this priority =
     (let this1 =
        (if priority = BTAV_A2DP_CODEC_PRIORITY_DEFAULT (cst E)
         then setDefaultCodecPriority E this
         else this\<lparr>codec_priority_m := priority\<rparr>)
      in this1\<lparr>codec_config_m := (codec_config_m this1)\<lparr>codec_priority := codec_priority_m this1\<rparr>\<rparr>)"

definition isCodecConfigEmpty :: "a2dp_env \<Rightarrow> btav_a2dp_codec_config_t \<Rightarrow> bool" where
  "isCodecConfigEmpty E codec_config \<longleftrightarrow>
     codec_priority codec_config = BTAV_A2DP_CODEC_PRIORITY_DEFAULT (cst E) \<and>
     sample_rate codec_config = BTAV_A2DP_CODEC_SAMPLE_RATE_NONE (cst E) \<and>
     bits_per_sample codec_config = BTAV_A2DP_CODEC_BITS_PER_SAMPLE_NONE (cst E) \<and>
     channel_mode codec_config = BTAV_A2DP_CODEC_CHANNEL_MODE_NONE (cst E) \<and>
     codec_specific_1 codec_config = 0 \<and>
     codec_specific_2 codec_config = 0 \<and>
     codec_specific_3 codec_config = 0 \<and>
     codec_specific_4 codec_config = 0"

text \<open>
  \<^verbatim>\<open>setCodecConfig\<close> is a pure virtual member: each codec class implements it in its
  own file. The implementation is a parameter: it receives the object, the peer
  buffer, \<^verbatim>\<open>is_capability\<close> and the result buffer, and returns its boolean, the
  object as it leaves it and the result buffer as it leaves it.
\<close>

type_synonym setCodecConfig_impl =
  "A2dpCodecConfig \<Rightarrow> bytes \<Rightarrow> bool \<Rightarrow> bytes \<Rightarrow> bool \<times> A2dpCodecConfig \<times> bytes"

text \<open>
  The boolean a call returns together with its out parameters
  \<^verbatim>\<open>p_result_codec_config\<close>, \<^verbatim>\<open>p_restart_input\<close>, \<^verbatim>\<open>p_restart_output\<close> and
  \<^verbatim>\<open>p_config_updated\<close>.
\<close>

record outcome =
  returned :: bool
  p_result_codec_config :: bytes
  p_restart_input :: bool
  p_restart_output :: bool
  p_config_updated :: bool

text \<open>
  \<^verbatim>\<open>A2dpCodecConfig::setCodecUserConfig\<close>. The argument \<^verbatim>\<open>p_peer_params\<close> is not
  used by the body and is left out.
\<close>

definition A2dpCodecConfig_setCodecUserConfig ::
  "a2dp_env \<Rightarrow> setCodecConfig_impl \<Rightarrow> A2dpCodecConfig \<Rightarrow> btav_a2dp_codec_config_t \<Rightarrow>
   btav_a2dp_codec_config_t \<Rightarrow> bytes \<Rightarrow> bool \<Rightarrow> bytes \<Rightarrow> A2dpCodecConfig \<times> outcome" where
  "A2dpCodecConfig_setCodecUserConfig E setCodecConfig this codec_user_config codec_audio_config
       p_peer_codec_info is_capability p_result =
     (let saved_codec_config = getCodecConfig this;
          saved_ota_codec_config = ota_codec_config_m this;
          saved_codec_user_config = codec_user_config_m this;
          this1 = this\<lparr>codec_user_config_m := codec_user_config\<rparr>;
          saved_codec_audio_config = codec_audio_config_m this1;
          this2 = this1\<lparr>codec_audio_config_m := codec_audio_config\<rparr>;
          (success, this3, result) = setCodecConfig this2 p_peer_codec_info is_capability p_result
      in if \<not> success then
           (this3\<lparr>codec_user_config_m := saved_codec_user_config,
                  codec_audio_config_m := saved_codec_audio_config\<rparr>,
            \<lparr>returned = False, p_result_codec_config = result, p_restart_input = False,
             p_restart_output = False, p_config_updated = False\<rparr>)
         else
           (let new_codec_config = getCodecConfig this3;
                restart_input =
                  (sample_rate saved_codec_config \<noteq> sample_rate new_codec_config \<or>
                   bits_per_sample saved_codec_config \<noteq> bits_per_sample new_codec_config \<or>
                   channel_mode saved_codec_config \<noteq> channel_mode new_codec_config \<or>
                   codec_specific_1 saved_codec_config \<noteq> codec_specific_1 new_codec_config \<or>
                   codec_specific_2 saved_codec_config \<noteq> codec_specific_2 new_codec_config \<or>
                   codec_specific_3 saved_codec_config \<noteq> codec_specific_3 new_codec_config);
                restart_output = (\<not> A2DP_CodecEquals E saved_ota_codec_config result)
            in (this3,
                \<lparr>returned = True, p_result_codec_config = result,
                 p_restart_input = restart_input, p_restart_output = restart_output,
                 p_config_updated = (restart_input \<or> restart_output)\<rparr>)))"

section \<open>The offload encoder\<close>

text \<open>
  \<^verbatim>\<open>memset(p_a2dp_offload->codec_info, 0, sizeof(p_a2dp_offload->codec_info))\<close>:
  every offset below the size of the array is cleared.
\<close>

definition memset_zero :: "nat \<Rightarrow> bytes \<Rightarrow> bytes" where
  "memset_zero n a = (\<lambda>i. if i < n then 0 else a i)"

text \<open>
  The two assignments that store a \<^verbatim>\<open>uint16_t\<close> tier, low byte first:
  \<^verbatim>\<open>info[lo] = (uint8_t)(q & 0xFF); info[hi] = (uint8_t)((q >> 8) & 0xFF)\<close>.
\<close>

definition put16 :: "nat \<Rightarrow> nat \<Rightarrow> 16 word \<Rightarrow> bytes \<Rightarrow> bytes" where
  "put16 lo hi q info =
     (info(lo := ucast (q AND 0xFF)))(hi := ucast (drop_bit 8 q AND 0xFF))"

text \<open>\<^verbatim>\<open>info[i] |= flag\<close> when \<open>c\<close> holds.\<close>

definition or_flag :: "bool \<Rightarrow> nat \<Rightarrow> u8 \<Rightarrow> bytes \<Rightarrow> bytes" where
  "or_flag c i flag info = (if c then info(i := info i OR flag) else info)"

text \<open>
  The \<^verbatim>\<open>switch (codec_config_.codec_specific_1 & 0x0F)\<close> of the LHDC V3 and V2
  branches (the two are the same text): the case labels in source order, \<^verbatim>\<open>HIGH1\<close>
  sharing the \<^verbatim>\<open>HIGH\<close> body.
\<close>

definition lhdc_bitrate_tier :: "a2dp_env \<Rightarrow> 64 word \<Rightarrow> 16 word" where
  "lhdc_bitrate_tier E q =
     (if q = A2DP_LHDC_QUALITY_LOW0 (lhdcq E) then A2DP_OFFLOAD_LHDC_QUALITY_LOW0 (offq E)
      else if q = A2DP_LHDC_QUALITY_LOW1 (lhdcq E) then A2DP_OFFLOAD_LHDC_QUALITY_LOW1 (offq E)
      else if q = A2DP_LHDC_QUALITY_LOW2 (lhdcq E) then A2DP_OFFLOAD_LHDC_QUALITY_LOW2 (offq E)
      else if q = A2DP_LHDC_QUALITY_LOW3 (lhdcq E) then A2DP_OFFLOAD_LHDC_QUALITY_LOW3 (offq E)
      else if q = A2DP_LHDC_QUALITY_LOW4 (lhdcq E) then A2DP_OFFLOAD_LHDC_QUALITY_LOW4 (offq E)
      else if q = A2DP_LHDC_QUALITY_LOW (lhdcq E) then A2DP_OFFLOAD_LHDC_QUALITY_LOW (offq E)
      else if q = A2DP_LHDC_QUALITY_MID (lhdcq E) then A2DP_OFFLOAD_LHDC_QUALITY_MID (offq E)
      else if q = A2DP_LHDC_QUALITY_HIGH (lhdcq E) \<or> q = A2DP_LHDC_QUALITY_HIGH1 (lhdcq E)
        then A2DP_OFFLOAD_LHDC_QUALITY_HIGH (offq E)
      else if q = A2DP_LHDC_QUALITY_ABR (lhdcq E) then A2DP_OFFLOAD_LHDC_QUALITY_ABR (offq E)
      else A2DP_OFFLOAD_LHDC_QUALITY_ABR (offq E))"

text \<open>The same switch in the LHDC V5 branch, where \<^verbatim>\<open>HIGH1\<close> has a tier of its own.\<close>

definition lhdcv5_bitrate_tier :: "a2dp_env \<Rightarrow> 64 word \<Rightarrow> 16 word" where
  "lhdcv5_bitrate_tier E q =
     (if q = A2DP_LHDC_QUALITY_LOW0 (lhdcq E) then A2DP_OFFLOAD_LHDC_QUALITY_LOW0 (offq E)
      else if q = A2DP_LHDC_QUALITY_LOW1 (lhdcq E) then A2DP_OFFLOAD_LHDC_QUALITY_LOW1 (offq E)
      else if q = A2DP_LHDC_QUALITY_LOW2 (lhdcq E) then A2DP_OFFLOAD_LHDC_QUALITY_LOW2 (offq E)
      else if q = A2DP_LHDC_QUALITY_LOW3 (lhdcq E) then A2DP_OFFLOAD_LHDC_QUALITY_LOW3 (offq E)
      else if q = A2DP_LHDC_QUALITY_LOW4 (lhdcq E) then A2DP_OFFLOAD_LHDC_QUALITY_LOW4 (offq E)
      else if q = A2DP_LHDC_QUALITY_LOW (lhdcq E) then A2DP_OFFLOAD_LHDC_QUALITY_LOW (offq E)
      else if q = A2DP_LHDC_QUALITY_MID (lhdcq E) then A2DP_OFFLOAD_LHDC_QUALITY_MID (offq E)
      else if q = A2DP_LHDC_QUALITY_HIGH (lhdcq E) then A2DP_OFFLOAD_LHDC_QUALITY_HIGH (offq E)
      else if q = A2DP_LHDC_QUALITY_HIGH1 (lhdcq E) then A2DP_OFFLOAD_LHDC_QUALITY_HIGH1 (offq E)
      else if q = A2DP_LHDC_QUALITY_ABR (lhdcq E) then A2DP_OFFLOAD_LHDC_QUALITY_ABR (offq E)
      else A2DP_OFFLOAD_LHDC_QUALITY_ABR (offq E))"

text \<open>
  The LDAC branch (lines 244 to 274). \<^verbatim>\<open>codec_specific_1 % 10\<close> is the remainder of
  C's truncating division on the signed 64 bit value.
\<close>

definition offload_ldac :: "a2dp_env \<Rightarrow> A2dpCodecConfig \<Rightarrow> bytes \<Rightarrow> bytes \<Rightarrow> bytes" where
  "offload_ldac E this codec_config info =
     (let cs1 = codec_specific_1 (codec_config_m this);
          quality =
            (if cs1 = 0 then A2DP_LDAC_QUALITY_ABR_OFFLOAD (ldac E)
             else
               (let r = sint cs1 smod 10
                in if r = 0 then A2DP_LDAC_QUALITY_HIGH (ldac E)
                   else if r = 1 then A2DP_LDAC_QUALITY_MID (ldac E)
                   else if r = 2 then A2DP_LDAC_QUALITY_LOW (ldac E)
                   else A2DP_LDAC_QUALITY_ABR_OFFLOAD (ldac E)))
      in (info(6 := quality))(7 := codec_config 10))"

text \<open>
  The maximum bit rate, the data interval and the split mode are written by the same
  text in the V3 and the V2 branch.
\<close>

definition lhdc_max_bitrate :: "a2dp_env \<Rightarrow> bytes \<Rightarrow> bytes \<Rightarrow> bytes" where
  "lhdc_max_bitrate E codec_config info =
     put16 (A2DP_OFFLOAD_LHDC_CFG_MAXBITRATE_L (layout E)) (A2DP_OFFLOAD_LHDC_CFG_MAXBITRATE_H (layout E))
       (if codec_config 10 AND A2DP_LHDC_MAX_BIT_RATE_MASK (lhdc E) = A2DP_LHDC_MAX_BIT_RATE_400K (lhdc E)
          then A2DP_OFFLOAD_LHDC_QUALITY_LOW (offq E)
        else if codec_config 10 AND A2DP_LHDC_MAX_BIT_RATE_MASK (lhdc E) = A2DP_LHDC_MAX_BIT_RATE_500K (lhdc E)
          then A2DP_OFFLOAD_LHDC_QUALITY_MID (offq E)
        else A2DP_OFFLOAD_LHDC_QUALITY_HIGH (offq E))
       info"

definition lhdc_data_interval :: "a2dp_env \<Rightarrow> bytes \<Rightarrow> bytes \<Rightarrow> bytes" where
  "lhdc_data_interval E codec_config info =
     info(A2DP_OFFLOAD_LHDC_CFG_INTERVAL (layout E) :=
       (if codec_config 10 AND A2DP_LHDC_LL_MASK (lhdc E) \<noteq> 0
        then A2DP_OFFLOAD_LHDC_DATA_INTERVAL_10MS (layout E)
        else A2DP_OFFLOAD_LHDC_DATA_INTERVAL_20MS (layout E)))"

definition lhdc_split_mode :: "a2dp_env \<Rightarrow> bytes \<Rightarrow> bytes \<Rightarrow> bool \<times> bytes" where
  "lhdc_split_mode E codec_config info =
     (if codec_config 11 AND A2DP_LHDC_CH_SPLIT_MSK (lhdc E) = A2DP_LHDC_CH_SPLIT_NONE (lhdc E)
        then (True, info(A2DP_OFFLOAD_LHDC_CFG_SPEC2 (layout E) := 0))
      else if codec_config 11 AND A2DP_LHDC_CH_SPLIT_MSK (lhdc E) = A2DP_LHDC_CH_SPLIT_TWS (lhdc E)
        then (True, or_flag True (A2DP_OFFLOAD_LHDC_CFG_SPEC2 (layout E))
                      (A2DP_OFFLOAD_LHDC_SPECIFIC_FEATURE_SPLIT (layout E)) info)
      else (False, info))"

text \<open>
  The LHDC V3 branch (lines 276 to 433). \<^verbatim>\<open>goto fail\<close> is the result \<open>False\<close>,
  with the array as written so far.
\<close>

definition offload_lhdcv3 :: "a2dp_env \<Rightarrow> A2dpCodecConfig \<Rightarrow> bytes \<Rightarrow> bytes \<Rightarrow> bool \<times> bytes" where
  "offload_lhdcv3 E this codec_config info =
     (if codec_config 10 AND A2DP_LHDC_VERSION_MASK (lhdc E) \<noteq> A2DP_LHDC_VER3 (lhdc E) \<and>
         codec_config 10 AND A2DP_LHDC_VERSION_MASK (lhdc E) \<noteq> A2DP_LHDC_VER6 (lhdc E)
      then (False, info)
      else
        (let isLLAC = (codec_config 10 AND A2DP_LHDC_FEATURE_LLAC (lhdc E) \<noteq> 0);
             isLHDCV4 = (codec_config 11 AND A2DP_LHDC_FEATURE_LHDCV4 (lhdc E) \<noteq> 0);
             info1 = info(A2DP_OFFLOAD_LHDC_CFG_VER (layout E) :=
               (if isLLAC \<and> \<not> isLHDCV4 then push_bit (A2DP_OFFLOAD_LHDCV3_LLAC (layout E) - 1) 1
                else if \<not> isLLAC \<and> isLHDCV4 then push_bit (A2DP_OFFLOAD_LHDCV3_V4_ONLY (layout E) - 1) 1
                else if \<not> isLLAC \<and> \<not> isLHDCV4 then push_bit (A2DP_OFFLOAD_LHDCV3_V3_ONLY (layout E) - 1) 1
                else push_bit (A2DP_OFFLOAD_LHDCV3_V3_ONLY (layout E) - 1) 1));
             info2 = put16 (A2DP_OFFLOAD_LHDC_CFG_BITRATE_L (layout E)) (A2DP_OFFLOAD_LHDC_CFG_BITRATE_H (layout E))
                       (lhdc_bitrate_tier E (codec_specific_1 (codec_config_m this) AND 0x0F)) info1;
             info3 = lhdc_max_bitrate E codec_config info2;
             info4 = put16 (A2DP_OFFLOAD_LHDC_CFG_MINBITRATE_L (layout E)) (A2DP_OFFLOAD_LHDC_CFG_MINBITRATE_H (layout E))
                       (if codec_config 11 AND A2DP_LHDC_FEATURE_MIN_BR (lhdc E) = A2DP_LHDC_FEATURE_MIN_BR (lhdc E)
                        then A2DP_OFFLOAD_LHDC_QUALITY_LOW4 (offq E)
                        else A2DP_OFFLOAD_LHDC_QUALITY_LOW1 (offq E))
                       info3;
             info5 = lhdc_data_interval E codec_config info4;
             info6 = or_flag (codec_config 9 AND A2DP_LHDC_FEATURE_AR (lhdc E) \<noteq> 0)
                       (A2DP_OFFLOAD_LHDC_CFG_SPEC1 (layout E)) (A2DP_OFFLOAD_LHDC_SPECIFIC_FEATURE_AR (layout E)) info5;
             info7 = or_flag (codec_config 9 AND A2DP_LHDC_FEATURE_JAS (lhdc E) \<noteq> 0)
                       (A2DP_OFFLOAD_LHDC_CFG_SPEC1 (layout E)) (A2DP_OFFLOAD_LHDC_SPECIFIC_FEATURE_JAS (layout E)) info6;
             info8 = or_flag (codec_config 11 AND A2DP_LHDC_FEATURE_META (lhdc E) \<noteq> 0)
                       (A2DP_OFFLOAD_LHDC_CFG_SPEC1 (layout E)) (A2DP_OFFLOAD_LHDC_SPECIFIC_FEATURE_META (layout E)) info7
         in lhdc_split_mode E codec_config info8))"

text \<open>The LHDC V2 branch (lines 435 to 544).\<close>

definition offload_lhdcv2 :: "a2dp_env \<Rightarrow> A2dpCodecConfig \<Rightarrow> bytes \<Rightarrow> bytes \<Rightarrow> bool \<times> bytes" where
  "offload_lhdcv2 E this codec_config info =
     (if codec_config 10 AND A2DP_LHDC_VERSION_MASK (lhdc E) > A2DP_LHDC_VER2 (lhdc E)
      then (False, info)
      else
        (let info1 = info(A2DP_OFFLOAD_LHDC_CFG_VER (layout E) :=
                       push_bit (A2DP_OFFLOAD_LHDCV2_VER_1 (layout E) - 1) 1);
             info2 = put16 (A2DP_OFFLOAD_LHDC_CFG_BITRATE_L (layout E)) (A2DP_OFFLOAD_LHDC_CFG_BITRATE_H (layout E))
                       (lhdc_bitrate_tier E (codec_specific_1 (codec_config_m this) AND 0x0F)) info1;
             info3 = lhdc_max_bitrate E codec_config info2;
             info4 = lhdc_data_interval E codec_config info3
         in lhdc_split_mode E codec_config info4))"

text \<open>The LHDC V5 branch (lines 545 to 689).\<close>

definition offload_lhdcv5 :: "a2dp_env \<Rightarrow> A2dpCodecConfig \<Rightarrow> bytes \<Rightarrow> bytes \<Rightarrow> bool \<times> bytes" where
  "offload_lhdcv5 E this codec_config info =
     (if codec_config 11 AND A2DP_LHDCV5_VERSION_MASK (lhdcv5 E) \<noteq> A2DP_LHDCV5_VER_1 (lhdcv5 E)
      then (False, info)
      else
        (let info1 = info(A2DP_OFFLOAD_LHDC_CFG_VER (layout E) :=
                       push_bit (A2DP_OFFLOAD_LHDCV5_VER_1 (layout E) - 1) 1);
             info2 = put16 (A2DP_OFFLOAD_LHDC_CFG_BITRATE_L (layout E)) (A2DP_OFFLOAD_LHDC_CFG_BITRATE_H (layout E))
                       (lhdcv5_bitrate_tier E (codec_specific_1 (codec_config_m this) AND 0xF)) info1;
             maxbr = codec_config 10 AND A2DP_LHDCV5_MAX_BIT_RATE_MASK (lhdcv5 E);
             info3 = put16 (A2DP_OFFLOAD_LHDC_CFG_MAXBITRATE_L (layout E)) (A2DP_OFFLOAD_LHDC_CFG_MAXBITRATE_H (layout E))
                       (if maxbr = A2DP_LHDCV5_MAX_BIT_RATE_400K (lhdcv5 E) then A2DP_OFFLOAD_LHDC_QUALITY_LOW (offq E)
                        else if maxbr = A2DP_LHDCV5_MAX_BIT_RATE_500K (lhdcv5 E) then A2DP_OFFLOAD_LHDC_QUALITY_MID (offq E)
                        else if maxbr = A2DP_LHDCV5_MAX_BIT_RATE_900K (lhdcv5 E) then A2DP_OFFLOAD_LHDC_QUALITY_HIGH (offq E)
                        else A2DP_OFFLOAD_LHDC_QUALITY_HIGH1 (offq E))
                       info2;
             minbr = codec_config 10 AND A2DP_LHDCV5_MIN_BIT_RATE_MASK (lhdcv5 E);
             info4 = put16 (A2DP_OFFLOAD_LHDC_CFG_MINBITRATE_L (layout E)) (A2DP_OFFLOAD_LHDC_CFG_MINBITRATE_H (layout E))
                       (if minbr = A2DP_LHDCV5_MIN_BIT_RATE_64K (lhdcv5 E) then A2DP_OFFLOAD_LHDC_QUALITY_LOW0 (offq E)
                        else if minbr = A2DP_LHDCV5_MIN_BIT_RATE_128K (lhdcv5 E) then A2DP_OFFLOAD_LHDC_QUALITY_LOW1 (offq E)
                        else if minbr = A2DP_LHDCV5_MIN_BIT_RATE_256K (lhdcv5 E) then A2DP_OFFLOAD_LHDC_QUALITY_LOW3 (offq E)
                        else A2DP_OFFLOAD_LHDC_QUALITY_LOW (offq E))
                       info3
         in if codec_config 11 AND A2DP_LHDCV5_FRAME_LEN_MASK (lhdcv5 E) = 0 then (False, info4)
            else
              (let info5 = info4(A2DP_OFFLOAD_LHDC_CFG_FRAMEDUR (layout E) :=
                             A2DP_OFFLOAD_LHDC_FRAME_DURATION_5000US (layout E));
                   info6 = info5(A2DP_OFFLOAD_LHDC_CFG_INTERVAL (layout E) :=
                             (if codec_config 12 AND A2DP_LHDCV5_FEATURE_LL (lhdcv5 E) \<noteq> 0
                              then A2DP_OFFLOAD_LHDC_DATA_INTERVAL_10MS (layout E)
                              else A2DP_OFFLOAD_LHDC_DATA_INTERVAL_20MS (layout E)));
                   info7 = or_flag (codec_config 12 AND A2DP_LHDCV5_FEATURE_AR (lhdcv5 E) \<noteq> 0)
                             (A2DP_OFFLOAD_LHDC_CFG_SPEC1 (layout E)) (A2DP_OFFLOAD_LHDC_SPECIFIC_FEATURE_AR (layout E)) info6;
                   info8 = or_flag (codec_config 12 AND A2DP_LHDCV5_FEATURE_JAS (lhdcv5 E) \<noteq> 0)
                             (A2DP_OFFLOAD_LHDC_CFG_SPEC1 (layout E)) (A2DP_OFFLOAD_LHDC_SPECIFIC_FEATURE_JAS (layout E)) info7;
                   info9 = or_flag (codec_config 12 AND A2DP_LHDCV5_FEATURE_META (lhdcv5 E) \<noteq> 0)
                             (A2DP_OFFLOAD_LHDC_CFG_SPEC1 (layout E)) (A2DP_OFFLOAD_LHDC_SPECIFIC_FEATURE_META (layout E)) info8;
                   info10 = or_flag (codec_config 13 AND A2DP_LHDCV5_AR_ON (lhdcv5 E) \<noteq> 0)
                             (A2DP_OFFLOAD_LHDC_CFG_SPEC2 (layout E)) (A2DP_OFFLOAD_LHDC_SPECIFIC_ACTION_AR_ON (layout E)) info9
               in (True, info10))))"

text \<open>
  The vendor case of the switch (lines 235 to 691): the six identifier bytes, then
  the chain over the vendor and codec identifiers.
\<close>

definition offload_vendor :: "a2dp_env \<Rightarrow> A2dpCodecConfig \<Rightarrow> bytes \<Rightarrow> bytes \<Rightarrow> bool \<times> bytes" where
  "offload_vendor E this codec_config info =
     (let vendor_id = A2DP_VendorCodecGetVendorId (vendor E) codec_config;
          codec_id = A2DP_VendorCodecGetCodecId (vendor E) codec_config;
          info1 = info
            (0 := ucast (vendor_id AND 0x000000FF),
             1 := ucast (drop_bit 8 (vendor_id AND 0x0000FF00)),
             2 := ucast (drop_bit 16 (vendor_id AND 0x00FF0000)),
             3 := ucast (drop_bit 24 (vendor_id AND 0xFF000000)),
             4 := ucast (codec_id AND 0x00FF),
             5 := ucast (drop_bit 8 (codec_id AND 0xFF00)))
      in if vendor_id = A2DP_LDAC_VENDOR_ID (ldac E) \<and> codec_id = A2DP_LDAC_CODEC_ID (ldac E)
           then (True, offload_ldac E this codec_config info1)
         else if vendor_id = A2DP_LHDC_VENDOR_ID (lhdc E) \<and> codec_id = A2DP_LHDCV3_CODEC_ID (lhdc E)
           then offload_lhdcv3 E this codec_config info1
         else if vendor_id = A2DP_LHDC_VENDOR_ID (lhdc E) \<and> codec_id = A2DP_LHDCV2_CODEC_ID (lhdc E)
           then offload_lhdcv2 E this codec_config info1
         else if vendor_id = A2DP_LHDC_VENDOR_ID (lhdc E) \<and> codec_id = A2DP_LHDCV5_CODEC_ID (lhdc E)
           then offload_lhdcv5 E this codec_config info1
         else (True, info1))"

text \<open>
  \<^verbatim>\<open>A2dpCodecConfig::getCodecSpecificConfig\<close>. The argument is the \<^verbatim>\<open>codec_info\<close>
  array of \<^verbatim>\<open>*p_a2dp_offload\<close> before the call; the result is the returned boolean
  and the array after the call. The object itself is only read.
\<close>

definition getCodecSpecificConfig :: "a2dp_env \<Rightarrow> A2dpCodecConfig \<Rightarrow> bytes \<Rightarrow> bool \<times> bytes" where
  "getCodecSpecificConfig E this offload_codec_info =
     (let info = memset_zero (sizeof_offload_codec_info (cst E)) offload_codec_info
      in if \<not> A2DP_IsSourceCodecValid E (ota_codec_config_m this) then (False, info)
         else
           (let codec_config = ota_codec_config_m this
            in codec_switch E (A2DP_GetCodecType E codec_config)
                 (True, info(0 := codec_config 4, 1 := codec_config 5, 2 := codec_config 6,
                             3 := codec_config 3))
                 (True, info(0 := codec_config 3, 1 := codec_config 6))
                 (offload_vendor E this codec_config info)
                 (True, info)))"

section \<open>The codec registry\<close>

text \<open>
  \<^verbatim>\<open>A2dpCodecs\<close> owns its descriptors and refers to them by pointer from the two
  maps, the two ordered lists and \<^verbatim>\<open>current_codec_config_\<close>; one object is
  reachable along several of these. The objects therefore live in a store
  (\<open>objects\<close>, address to object), a pointer is an address and \<^verbatim>\<open>nullptr\<close> is
  \<open>None\<close>. The maps hold the pointers \<^verbatim>\<open>init\<close> inserted, which are never null.
\<close>

type_synonym addr = nat

record A2dpCodecs =
  objects :: "addr \<Rightarrow> A2dpCodecConfig"
  indexed_codecs_m :: "int \<rightharpoonup> addr"
  disabled_codecs_m :: "int \<rightharpoonup> addr"
  ordered_source_codecs_m :: "addr list"
  ordered_sink_codecs_m :: "addr list"
  current_codec_config_m :: "addr option"

definition compare_codec_priority :: "A2dpCodecConfig \<Rightarrow> A2dpCodecConfig \<Rightarrow> bool" where
  "compare_codec_priority lhs rhs =
     (if codecPriority lhs > codecPriority rhs then True
      else if codecPriority lhs < codecPriority rhs then False
      else codecIndex lhs > codecIndex rhs)"

text \<open>
  \<^verbatim>\<open>std::list::sort(comp)\<close> is a stable sort. For a comparator that is a strict weak
  order the result of a stable sort is determined by the input alone, so the sort is
  modelled by stable insertion: an element goes in front of the first element that
  does not have to precede it.
\<close>

fun insert_by :: "('a \<Rightarrow> 'a \<Rightarrow> bool) \<Rightarrow> 'a \<Rightarrow> 'a list \<Rightarrow> 'a list" where
  "insert_by cmp x [] = [x]"
| "insert_by cmp x (y # ys) = (if cmp y x then y # insert_by cmp x ys else x # y # ys)"

fun list_sort :: "('a \<Rightarrow> 'a \<Rightarrow> bool) \<Rightarrow> 'a list \<Rightarrow> 'a list" where
  "list_sort cmp [] = []"
| "list_sort cmp (x # xs) = insert_by cmp x (list_sort cmp xs)"

text \<open>A list of pointers is in order when no later entry has to precede an earlier one.\<close>

definition ordered_by_priority :: "(addr \<Rightarrow> A2dpCodecConfig) \<Rightarrow> addr list \<Rightarrow> bool" where
  "ordered_by_priority h ps =
     sorted_wrt (\<lambda>a b. \<not> compare_codec_priority (h b) (h a)) ps"

text \<open>The label \<^verbatim>\<open>fail\<close> of the two registry operations below.\<close>

definition registry_fail :: "A2dpCodecs \<Rightarrow> addr option \<Rightarrow> outcome \<Rightarrow> A2dpCodecs \<times> outcome" where
  "registry_fail r last_codec_config out =
     (r\<lparr>current_codec_config_m := last_codec_config\<rparr>, out\<lparr>returned := False\<rparr>)"

definition cleared_outcome :: "bytes \<Rightarrow> outcome" where
  "cleared_outcome p_result =
     \<lparr>returned = False, p_result_codec_config = p_result, p_restart_input = False,
      p_restart_output = False, p_config_updated = False\<rparr>"

text \<open>
  The \<^verbatim>\<open>do { ... } while (false)\<close> block of \<^verbatim>\<open>A2dpCodecs::setCodecUserConfig\<close>
  (lines 1493 to 1544), entered once the descriptor call has succeeded on the object
  at \<open>t\<close>. \<open>out\<close> carries the flags as the descriptor call left them.
\<close>

definition reconcile_priority ::
  "a2dp_env \<Rightarrow> A2dpCodecs \<Rightarrow> addr option \<Rightarrow> addr \<Rightarrow> int \<Rightarrow> outcome \<Rightarrow> A2dpCodecs \<times> outcome" where
  "reconcile_priority E r last_codec_config t user_priority out =
     (let old_priority = codecPriority (objects r t);
          r1 = r\<lparr>objects := (objects r)(t := setCodecPriority E (objects r t) user_priority)\<rparr>;
          new_priority = codecPriority (objects r1 t)
      in case last_codec_config of
           None \<Rightarrow>
             (r1\<lparr>current_codec_config_m := Some t\<rparr>,
              out\<lparr>p_restart_input := True, p_restart_output := True\<rparr>)
         | Some l \<Rightarrow>
             if t = l then
               (if old_priority = new_priority then (r1, out)
                else if new_priority < old_priority
                  then (r1, out\<lparr>p_config_updated := True, p_restart_output := True\<rparr>)
                else (r1, out\<lparr>p_config_updated := True\<rparr>))
             else if new_priority \<le> old_priority then
               (r1, out\<lparr>p_config_updated :=
                        (if p_restart_input out \<or> p_restart_output out \<or> old_priority \<noteq> new_priority
                         then True else p_config_updated out),
                      p_restart_input := False, p_restart_output := False\<rparr>)
             else if new_priority \<ge> codecPriority (objects r1 l) then
               (r1\<lparr>current_codec_config_m := Some t,
                   objects := (objects r1)(l := setDefaultCodecPriority E (objects r1 l))\<rparr>,
                out\<lparr>p_config_updated := True, p_restart_input := True, p_restart_output := True\<rparr>)
             else (r1, out\<lparr>p_config_updated := True\<rparr>))"

text \<open>
  The descriptor \<^verbatim>\<open>A2dpCodecs::setCodecUserConfig\<close> works on (lines 1472 to 1480):
  the enabled one of the given codec index, or the current one when the index is not
  below \<^verbatim>\<open>BTAV_A2DP_CODEC_INDEX_MAX\<close>; \<open>None\<close> is the jump to \<^verbatim>\<open>fail\<close>.
\<close>

definition user_config_target ::
  "a2dp_env \<Rightarrow> A2dpCodecs \<Rightarrow> btav_a2dp_codec_config_t \<Rightarrow> addr option" where
  "user_config_target E r codec_user_config =
     (if codec_type codec_user_config < BTAV_A2DP_CODEC_INDEX_MAX (cst E)
      then indexed_codecs_m r (codec_type codec_user_config)
      else current_codec_config_m r)"

text \<open>
  \<^verbatim>\<open>A2dpCodecs::setCodecUserConfig\<close>; \<^verbatim>\<open>p_peer_params\<close> is only handed on and is
  left out.
\<close>

definition A2dpCodecs_setCodecUserConfig ::
  "a2dp_env \<Rightarrow> setCodecConfig_impl \<Rightarrow> A2dpCodecs \<Rightarrow> btav_a2dp_codec_config_t \<Rightarrow>
   bytes \<Rightarrow> bytes \<Rightarrow> A2dpCodecs \<times> outcome" where
  "A2dpCodecs_setCodecUserConfig E setCodecConfig r codec_user_config p_peer_sink_capabilities
       p_result =
     (let last_codec_config = current_codec_config_m r;
          a2dp_codec_config = user_config_target E r codec_user_config
      in case a2dp_codec_config of
           None \<Rightarrow> registry_fail r last_codec_config (cleared_outcome p_result)
         | Some t \<Rightarrow>
             (let codec_audio_config = getCodecAudioConfig (objects r t);
                  (this', out) =
                     A2dpCodecConfig_setCodecUserConfig E setCodecConfig (objects r t)
                       codec_user_config codec_audio_config p_peer_sink_capabilities True p_result;
                  r1 = r\<lparr>objects := (objects r)(t := this')\<rparr>
              in if \<not> returned out then registry_fail r1 last_codec_config out
                 else
                   (let (r2, out2) =
                          reconcile_priority E r1 last_codec_config t
                            (codec_priority codec_user_config) out;
                        r3 = r2\<lparr>ordered_source_codecs_m :=
                               list_sort (\<lambda>a b. compare_codec_priority (objects r2 a) (objects r2 b))
                                 (ordered_source_codecs_m r2)\<rparr>;
                        out3 = (if p_restart_input out2 \<or> p_restart_output out2
                                then out2\<lparr>p_config_updated := True\<rparr> else out2)
                    in (r3, out3\<lparr>returned := True\<rparr>))))"

text \<open>\<^verbatim>\<open>A2dpCodecs::setCodecOtaConfig\<close>.\<close>

definition A2dpCodecs_setCodecOtaConfig ::
  "a2dp_env \<Rightarrow> setCodecConfig_impl \<Rightarrow> A2dpCodecs \<Rightarrow> bytes \<Rightarrow> bytes \<Rightarrow> A2dpCodecs \<times> outcome" where
  "A2dpCodecs_setCodecOtaConfig E setCodecConfig r p_ota_codec_config p_result =
     (let last_codec_config = current_codec_config_m r;
          current_is_user_configured =
            (case current_codec_config_m r of
               None \<Rightarrow> False
             | Some c \<Rightarrow> \<not> isCodecConfigEmpty E (getCodecUserConfig (objects r c)))
      in if current_is_user_configured
           then registry_fail r last_codec_config (cleared_outcome p_result)
         else
           (let codec_type = A2DP_SourceCodecIndex E p_ota_codec_config
            in if codec_type = BTAV_A2DP_CODEC_INDEX_MAX (cst E)
                 then registry_fail r last_codec_config (cleared_outcome p_result)
               else
                 (case indexed_codecs_m r codec_type of
                    None \<Rightarrow> registry_fail r last_codec_config (cleared_outcome p_result)
                  | Some t \<Rightarrow>
                      (let codec_user_config = getCodecUserConfig (objects r t)
                       in if \<not> isCodecConfigEmpty E codec_user_config
                            then registry_fail r last_codec_config (cleared_outcome p_result)
                          else
                            (let r1 = r\<lparr>current_codec_config_m := Some t\<rparr>;
                                 codec_audio_config = getCodecAudioConfig (objects r1 t);
                                 (this', out) =
                                    A2dpCodecConfig_setCodecUserConfig E setCodecConfig (objects r1 t)
                                      codec_user_config codec_audio_config p_ota_codec_config False
                                      p_result;
                                 r2 = r1\<lparr>objects := (objects r1)(t := this')\<rparr>
                             in if \<not> returned out then registry_fail r2 last_codec_config out
                                else
                                  (r2, (if p_restart_input out \<or> p_restart_output out
                                        then out\<lparr>p_config_updated := True\<rparr> else out)
                                       \<lparr>returned := True\<rparr>))))))"

section \<open>Construction, and one instance of the parameters\<close>

text \<open>
  \<^verbatim>\<open>init_btav_a2dp_codec_config\<close> and the constructor of \<^verbatim>\<open>A2dpCodecConfig\<close>
  (lines 56 to 87): every snapshot is cleared, the user and audio snapshots get the
  default priority, the others the priority \<^verbatim>\<open>setCodecPriority\<close> computed.
\<close>

definition init_btav_a2dp_codec_config :: "int \<Rightarrow> int \<Rightarrow> btav_a2dp_codec_config_t" where
  "init_btav_a2dp_codec_config codec_index priority =
     \<lparr>codec_type = codec_index, codec_priority = priority, sample_rate = 0,
      bits_per_sample = 0, channel_mode = 0, codec_specific_1 = 0, codec_specific_2 = 0,
      codec_specific_3 = 0, codec_specific_4 = 0\<rparr>"

definition A2dpCodecConfig_new :: "a2dp_env \<Rightarrow> int \<Rightarrow> int \<Rightarrow> A2dpCodecConfig" where
  "A2dpCodecConfig_new E codec_index priority =
     (let this0 =
            \<lparr>codec_index_m = codec_index, default_codec_priority_m = priority,
             codec_priority_m = 0,
             codec_config_m = init_btav_a2dp_codec_config 0 0,
             codec_capability_m = init_btav_a2dp_codec_config 0 0,
             codec_local_capability_m = init_btav_a2dp_codec_config 0 0,
             codec_selectable_capability_m = init_btav_a2dp_codec_config 0 0,
             codec_user_config_m = init_btav_a2dp_codec_config 0 0,
             codec_audio_config_m = init_btav_a2dp_codec_config 0 0,
             ota_codec_config_m = (\<lambda>i. 0), ota_codec_peer_capability_m = (\<lambda>i. 0),
             ota_codec_peer_config_m = (\<lambda>i. 0)\<rparr>;
          this1 = setCodecPriority E this0 priority
      in this1
           \<lparr>codec_config_m := init_btav_a2dp_codec_config codec_index (codecPriority this1),
            codec_capability_m := init_btav_a2dp_codec_config codec_index (codecPriority this1),
            codec_local_capability_m := init_btav_a2dp_codec_config codec_index (codecPriority this1),
            codec_selectable_capability_m :=
              init_btav_a2dp_codec_config codec_index (codecPriority this1),
            codec_user_config_m :=
              init_btav_a2dp_codec_config codec_index (BTAV_A2DP_CODEC_PRIORITY_DEFAULT (cst E)),
            codec_audio_config_m :=
              init_btav_a2dp_codec_config codec_index (BTAV_A2DP_CODEC_PRIORITY_DEFAULT (cst E))\<rparr>)"

text \<open>
  One admissible choice of the parameters, used to run the model on concrete inputs.
  The type tags and the two vendor identifiers are the A2DP assigned numbers; the
  other constants are sample values. The codec family functions are small stand-ins
  of the right shape (an SBC buffer is accepted when its length byte is 6, a vendor
  buffer when it is at least 8; vendor and codec identifier are read little endian
  from bytes 3 to 8).
\<close>

definition sample_constants :: a2dp_constants where
  "sample_constants =
     \<lparr>EXCLUDE_NONSTANDARD_CODECS = False, AVDT_CODEC_TYPE_INDEX = 2,
      A2DP_MEDIA_CT_SBC = 0x00, A2DP_MEDIA_CT_AAC = 0x02, A2DP_MEDIA_CT_NON_A2DP = 0xFF,
      BTAV_A2DP_CODEC_INDEX_MAX = 16, BTAV_A2DP_CODEC_PRIORITY_DEFAULT = 0,
      BTAV_A2DP_CODEC_SAMPLE_RATE_NONE = 0, BTAV_A2DP_CODEC_BITS_PER_SAMPLE_NONE = 0,
      BTAV_A2DP_CODEC_CHANNEL_MODE_NONE = 0, sizeof_offload_codec_info = 32\<rparr>"

definition sample_sbc :: sbc_family where
  "sample_sbc =
     \<lparr>A2DP_IsSourceCodecValidSbc = (\<lambda>p. p 0 = 6),
      A2DP_IsSinkCodecValidSbc = (\<lambda>p. p 0 = 6),
      A2DP_IsPeerSourceCodecValidSbc = (\<lambda>p. p 0 = 6),
      A2DP_IsPeerSinkCodecValidSbc = (\<lambda>p. p 0 = 6),
      A2DP_CodecNameSbc = (\<lambda>p. ''SBC''),
      A2DP_CodecEqualsSbc = (\<lambda>a b. a 3 = b 3 \<and> a 4 = b 4 \<and> a 5 = b 5 \<and> a 6 = b 6),
      A2DP_GetTrackSampleRateSbc = (\<lambda>p. if p 3 AND 0x20 \<noteq> 0 then 44100 else 48000),
      A2DP_SourceCodecIndexSbc = (\<lambda>p. 0)\<rparr>"

definition sample_aac :: aac_family where
  "sample_aac =
     \<lparr>A2DP_IsSourceCodecValidAac = (\<lambda>p. p 0 = 8),
      A2DP_IsSinkCodecValidAac = (\<lambda>p. p 0 = 8),
      A2DP_IsPeerSourceCodecValidAac = (\<lambda>p. p 0 = 8),
      A2DP_IsPeerSinkCodecValidAac = (\<lambda>p. p 0 = 8),
      A2DP_CodecNameAac = (\<lambda>p. ''AAC''),
      A2DP_CodecEqualsAac = (\<lambda>a b. a 3 = b 3 \<and> a 4 = b 4 \<and> a 5 = b 5 \<and> a 6 = b 6),
      A2DP_GetTrackSampleRateAac = (\<lambda>p. 44100),
      A2DP_SourceCodecIndexAac = (\<lambda>p. 1)\<rparr>"

definition sample_vendor :: vendor_family where
  "sample_vendor =
     \<lparr>A2DP_IsVendorSourceCodecValid = (\<lambda>p. 8 \<le> p 0),
      A2DP_IsVendorSinkCodecValid = (\<lambda>p. 8 \<le> p 0),
      A2DP_IsVendorPeerSourceCodecValid = (\<lambda>p. 8 \<le> p 0),
      A2DP_IsVendorPeerSinkCodecValid = (\<lambda>p. 8 \<le> p 0),
      A2DP_VendorCodecName = (\<lambda>p. ''VENDOR''),
      A2DP_VendorCodecEquals = (\<lambda>a b. a 9 = b 9 \<and> a 10 = b 10 \<and> a 11 = b 11),
      A2DP_VendorGetTrackSampleRate = (\<lambda>p. 48000),
      A2DP_VendorSourceCodecIndex = (\<lambda>p. 4),
      A2DP_VendorUsesRtpHeader = (\<lambda>content_protection_enabled p. content_protection_enabled),
      A2DP_VendorCodecGetVendorId =
        (\<lambda>p. ucast (p 3) OR push_bit 8 (ucast (p 4)) OR push_bit 16 (ucast (p 5))
               OR push_bit 24 (ucast (p 6))),
      A2DP_VendorCodecGetCodecId = (\<lambda>p. ucast (p 7) OR push_bit 8 (ucast (p 8)))\<rparr>"

definition sample_ldac :: ldac_constants where
  "sample_ldac =
     \<lparr>A2DP_LDAC_VENDOR_ID = 0x0000012D, A2DP_LDAC_CODEC_ID = 0x00AA,
      A2DP_LDAC_QUALITY_ABR_OFFLOAD = 0x7F, A2DP_LDAC_QUALITY_HIGH = 0x00,
      A2DP_LDAC_QUALITY_MID = 0x01, A2DP_LDAC_QUALITY_LOW = 0x02\<rparr>"

definition sample_lhdc :: lhdc_constants where
  "sample_lhdc =
     \<lparr>A2DP_LHDC_VENDOR_ID = 0x0000053A, A2DP_LHDCV2_CODEC_ID = 0x4C32,
      A2DP_LHDCV3_CODEC_ID = 0x4C33, A2DP_LHDCV5_CODEC_ID = 0x4C35,
      A2DP_LHDC_VERSION_MASK = 0x0F, A2DP_LHDC_VER2 = 0x01, A2DP_LHDC_VER3 = 0x01,
      A2DP_LHDC_VER6 = 0x08, A2DP_LHDC_FEATURE_LLAC = 0x80, A2DP_LHDC_FEATURE_LHDCV4 = 0x80,
      A2DP_LHDC_MAX_BIT_RATE_MASK = 0x30, A2DP_LHDC_MAX_BIT_RATE_400K = 0x20,
      A2DP_LHDC_MAX_BIT_RATE_500K = 0x10, A2DP_LHDC_FEATURE_MIN_BR = 0x20,
      A2DP_LHDC_LL_MASK = 0x40, A2DP_LHDC_FEATURE_AR = 0x10, A2DP_LHDC_FEATURE_JAS = 0x40,
      A2DP_LHDC_FEATURE_META = 0x10, A2DP_LHDC_CH_SPLIT_MSK = 0x0F,
      A2DP_LHDC_CH_SPLIT_NONE = 0x01, A2DP_LHDC_CH_SPLIT_TWS = 0x02\<rparr>"

definition sample_lhdc_quality :: lhdc_quality_constants where
  "sample_lhdc_quality =
     \<lparr>A2DP_LHDC_QUALITY_LOW0 = 1, A2DP_LHDC_QUALITY_LOW1 = 2, A2DP_LHDC_QUALITY_LOW2 = 3,
      A2DP_LHDC_QUALITY_LOW3 = 4, A2DP_LHDC_QUALITY_LOW4 = 5, A2DP_LHDC_QUALITY_LOW = 6,
      A2DP_LHDC_QUALITY_MID = 7, A2DP_LHDC_QUALITY_HIGH = 8, A2DP_LHDC_QUALITY_HIGH1 = 10,
      A2DP_LHDC_QUALITY_ABR = 9\<rparr>"

definition sample_lhdcv5 :: lhdcv5_constants where
  "sample_lhdcv5 =
     \<lparr>A2DP_LHDCV5_VERSION_MASK = 0x0F, A2DP_LHDCV5_VER_1 = 0x01,
      A2DP_LHDCV5_MAX_BIT_RATE_MASK = 0x30, A2DP_LHDCV5_MAX_BIT_RATE_400K = 0x30,
      A2DP_LHDCV5_MAX_BIT_RATE_500K = 0x20, A2DP_LHDCV5_MAX_BIT_RATE_900K = 0x10,
      A2DP_LHDCV5_MIN_BIT_RATE_MASK = 0xC0, A2DP_LHDCV5_MIN_BIT_RATE_64K = 0xC0,
      A2DP_LHDCV5_MIN_BIT_RATE_128K = 0x80, A2DP_LHDCV5_MIN_BIT_RATE_256K = 0x40,
      A2DP_LHDCV5_FRAME_LEN_MASK = 0x10, A2DP_LHDCV5_FEATURE_LL = 0x40,
      A2DP_LHDCV5_FEATURE_AR = 0x01, A2DP_LHDCV5_FEATURE_JAS = 0x02,
      A2DP_LHDCV5_FEATURE_META = 0x04, A2DP_LHDCV5_AR_ON = 0x01\<rparr>"

definition sample_layout :: offload_layout where
  "sample_layout =
     \<lparr>A2DP_OFFLOAD_LHDC_CFG_VER = 6, A2DP_OFFLOAD_LHDC_CFG_BITRATE_L = 7,
      A2DP_OFFLOAD_LHDC_CFG_BITRATE_H = 8, A2DP_OFFLOAD_LHDC_CFG_MAXBITRATE_L = 9,
      A2DP_OFFLOAD_LHDC_CFG_MAXBITRATE_H = 10, A2DP_OFFLOAD_LHDC_CFG_MINBITRATE_L = 11,
      A2DP_OFFLOAD_LHDC_CFG_MINBITRATE_H = 12, A2DP_OFFLOAD_LHDC_CFG_FRAMEDUR = 13,
      A2DP_OFFLOAD_LHDC_CFG_INTERVAL = 14, A2DP_OFFLOAD_LHDC_CFG_SPEC1 = 15,
      A2DP_OFFLOAD_LHDC_CFG_SPEC2 = 19, A2DP_OFFLOAD_LHDCV2_VER_1 = 1,
      A2DP_OFFLOAD_LHDCV3_V3_ONLY = 2, A2DP_OFFLOAD_LHDCV3_V4_ONLY = 3,
      A2DP_OFFLOAD_LHDCV3_LLAC = 4, A2DP_OFFLOAD_LHDCV5_VER_1 = 5,
      A2DP_OFFLOAD_LHDC_DATA_INTERVAL_10MS = 0x00, A2DP_OFFLOAD_LHDC_DATA_INTERVAL_20MS = 0x01,
      A2DP_OFFLOAD_LHDC_FRAME_DURATION_5000US = 0x00,
      A2DP_OFFLOAD_LHDC_SPECIFIC_FEATURE_AR = 0x01, A2DP_OFFLOAD_LHDC_SPECIFIC_FEATURE_JAS = 0x02,
      A2DP_OFFLOAD_LHDC_SPECIFIC_FEATURE_META = 0x04,
      A2DP_OFFLOAD_LHDC_SPECIFIC_FEATURE_SPLIT = 0x01, A2DP_OFFLOAD_LHDC_SPECIFIC_ACTION_AR_ON = 0x02\<rparr>"

definition sample_offload_quality :: offload_quality_constants where
  "sample_offload_quality =
     \<lparr>A2DP_OFFLOAD_LHDC_QUALITY_LOW0 = 0x01, A2DP_OFFLOAD_LHDC_QUALITY_LOW1 = 0x02,
      A2DP_OFFLOAD_LHDC_QUALITY_LOW2 = 0x03, A2DP_OFFLOAD_LHDC_QUALITY_LOW3 = 0x04,
      A2DP_OFFLOAD_LHDC_QUALITY_LOW4 = 0x05, A2DP_OFFLOAD_LHDC_QUALITY_LOW = 0x06,
      A2DP_OFFLOAD_LHDC_QUALITY_MID = 0x07, A2DP_OFFLOAD_LHDC_QUALITY_HIGH = 0x08,
      A2DP_OFFLOAD_LHDC_QUALITY_HIGH1 = 0x0A, A2DP_OFFLOAD_LHDC_QUALITY_ABR = 0x09\<rparr>"

definition sample_env :: a2dp_env where
  "sample_env =
     \<lparr>cst = sample_constants, sbc = sample_sbc, aac = sample_aac, vendor = sample_vendor,
      ldac = sample_ldac, lhdc = sample_lhdc, lhdcq = sample_lhdc_quality,
      lhdcv5 = sample_lhdcv5, layout = sample_layout, offq = sample_offload_quality\<rparr>"

text \<open>
  A buffer given by its first bytes (the rest is zero), and an object whose
  negotiated wire buffer is the given one.
\<close>

definition buffer_of :: "u8 list \<Rightarrow> bytes" where
  "buffer_of bs = (\<lambda>i. if i < length bs then bs ! i else 0)"

definition object_with_ota :: "int \<Rightarrow> bytes \<Rightarrow> A2dpCodecConfig" where
  "object_with_ota codec_index ota =
     (A2dpCodecConfig_new sample_env codec_index 0)\<lparr>ota_codec_config_m := ota\<rparr>"

text \<open>
  Sample buffers. Byte 0 is the length, byte 2 the codec type tag. The SBC buffer
  carries 44100 Hz and stereo in byte 3 (\<open>0x20 OR 0x02\<close>), 16 blocks, 8 subbands and
  loudness allocation in byte 4 (\<open>0x10 OR 0x04 OR 0x01\<close>) and the bitpool range 2 to 53
  in bytes 5 and 6. The second buffer carries the tag 1, which no case of the
  dispatch switch names. An LHDC buffer carries the vendor identifier in bytes 3 to
  6 and the codec identifier in bytes 7 and 8.
\<close>

definition sbc_44100_stereo :: bytes where
  "sbc_44100_stereo = buffer_of [6, 0, 0x00, 0x22, 0x15, 2, 53]"

definition sbc_truncated :: bytes where
  "sbc_truncated = buffer_of [5, 0, 0x00, 0x22, 0x15, 2]"

definition unknown_tag_buffer :: bytes where
  "unknown_tag_buffer = buffer_of [6, 0, 0x01, 0x22, 0x15, 2, 53]"

definition lhdc_wire :: "u8 \<Rightarrow> u8 \<Rightarrow> u8 \<Rightarrow> bytes" where
  "lhdc_wire codec_id_low b10 b11 =
     buffer_of [11, 0, 0xFF, 0x3A, 0x05, 0x00, 0x00, codec_id_low, 0x4C, 0x00, b10, b11]"

definition stale_offload :: bytes where
  "stale_offload = (\<lambda>i. 0xAA)"

section \<open>Notions used in the statements\<close>

text \<open>
  A vendor tagged buffer that carries the LHDC vendor identifier and the given codec
  identifier, as the chain in \<^verbatim>\<open>getCodecSpecificConfig\<close> tests it.
\<close>

definition lhdc_codec_info :: "a2dp_env \<Rightarrow> bytes \<Rightarrow> 16 word \<Rightarrow> bool" where
  "lhdc_codec_info E p codec_id \<longleftrightarrow>
     A2DP_GetCodecType E p = A2DP_MEDIA_CT_NON_A2DP (cst E) \<and>
     A2DP_VendorCodecGetVendorId (vendor E) p = A2DP_LHDC_VENDOR_ID (lhdc E) \<and>
     A2DP_VendorCodecGetCodecId (vendor E) p = codec_id"

text \<open>
  The identifiers are parameters here; in the headers they are different numbers.
  This is what the statements about the vendor chain need of them.
\<close>

definition identifiers_distinct :: "a2dp_env \<Rightarrow> bool" where
  "identifiers_distinct E \<longleftrightarrow>
     A2DP_MEDIA_CT_NON_A2DP (cst E) \<noteq> A2DP_MEDIA_CT_SBC (cst E) \<and>
     A2DP_MEDIA_CT_NON_A2DP (cst E) \<noteq> A2DP_MEDIA_CT_AAC (cst E) \<and>
     A2DP_LHDC_VENDOR_ID (lhdc E) \<noteq> A2DP_LDAC_VENDOR_ID (ldac E) \<and>
     A2DP_LHDCV2_CODEC_ID (lhdc E) \<noteq> A2DP_LHDCV3_CODEC_ID (lhdc E) \<and>
     A2DP_LHDCV5_CODEC_ID (lhdc E) \<noteq> A2DP_LHDCV3_CODEC_ID (lhdc E) \<and>
     A2DP_LHDCV5_CODEC_ID (lhdc E) \<noteq> A2DP_LHDCV2_CODEC_ID (lhdc E)"

text \<open>
  Modelled from the spec: the codec classes' \<^verbatim>\<open>setCodecConfig\<close>, which
  \<^verbatim>\<open>setCodecUserConfig\<close> calls and whose bodies are in the codec files, not in the file
  under study. The specification says of every mutating operation that it leaves the
  state as it was before the call when it fails (rollback, not partial commit), and of
  an infeasible negotiation that the snapshots are unchanged. What is used of this is
  the part about the two snapshots \<^verbatim>\<open>setCodecUserConfig\<close> does not restore itself:
  a failed \<^verbatim>\<open>setCodecConfig\<close> leaves \<^verbatim>\<open>codec_config_\<close> and \<^verbatim>\<open>ota_codec_config_\<close>
  as it found them.
\<close>

definition setCodecConfig_rolls_back :: "setCodecConfig_impl \<Rightarrow> bool" where
  "setCodecConfig_rolls_back setCodecConfig \<longleftrightarrow>
     (\<forall>this p_peer_codec_info is_capability p_result.
        \<not> fst (setCodecConfig this p_peer_codec_info is_capability p_result) \<longrightarrow>
        codec_config_m (fst (snd (setCodecConfig this p_peer_codec_info is_capability p_result))) =
          codec_config_m this \<and>
        ota_codec_config_m (fst (snd (setCodecConfig this p_peer_codec_info is_capability p_result))) =
          ota_codec_config_m this)"


section \<open>Sample objects\<close>

text \<open>
  A stand-in for one codec's \<^verbatim>\<open>setCodecConfig\<close>: it refuses a peer buffer that is
  not a valid peer sink codec and touches nothing then; otherwise it selects
  44100 Hz, 16 bits and stereo, takes the four codec specific values from the user
  configuration, and makes the peer buffer the negotiated wire configuration and the
  result.
\<close>

definition sample_setCodecConfig :: setCodecConfig_impl where
  "sample_setCodecConfig this p_peer_codec_info is_capability p_result =
     (if \<not> A2DP_IsPeerSinkCodecValid sample_env p_peer_codec_info then (False, this, p_result)
      else
        (True,
         this\<lparr>codec_config_m := (codec_config_m this)
                 \<lparr>sample_rate := 0x1, bits_per_sample := 0x1, channel_mode := 0x2,
                  codec_specific_1 := codec_specific_1 (codec_user_config_m this),
                  codec_specific_2 := codec_specific_2 (codec_user_config_m this),
                  codec_specific_3 := codec_specific_3 (codec_user_config_m this),
                  codec_specific_4 := codec_specific_4 (codec_user_config_m this)\<rparr>,
              ota_codec_config_m := p_peer_codec_info\<rparr>,
         p_peer_codec_info))"

text \<open>
  The descriptor of codec index 6 after a first successful negotiation with an empty
  user configuration, and a user configuration that differs from the empty one in
  \<^verbatim>\<open>codec_specific_4\<close> only.
\<close>

definition empty_buffer :: bytes where
  "empty_buffer = (\<lambda>i. 0)"

definition negotiated_object :: A2dpCodecConfig where
  "negotiated_object =
     fst (A2dpCodecConfig_setCodecUserConfig sample_env sample_setCodecConfig
            (A2dpCodecConfig_new sample_env 6 0) (init_btav_a2dp_codec_config 6 0)
            (init_btav_a2dp_codec_config 6 0) (lhdc_wire 0x33 0x01 0x01) True empty_buffer)"

definition user_config_cs4 :: btav_a2dp_codec_config_t where
  "user_config_cs4 = (init_btav_a2dp_codec_config 6 0)\<lparr>codec_specific_4 := 1\<rparr>"

text \<open>
  A registry with three enabled source codecs (indices 0, 1 and 4, at the addresses
  0, 1 and 2) and two enabled sink codecs (indices 10 and 11, at the addresses 3 and
  4), all constructed with the default priority, so that their priorities are 1001,
  2001, 5001, 11001 and 12001. Both lists are in order; the codec of index 1 is the
  current one. An address that is not in use holds a copy of the first object.
\<close>

definition sample_registry :: A2dpCodecs where
  "sample_registry =
     \<lparr>objects = (\<lambda>a. A2dpCodecConfig_new sample_env 0 0)
        (1 := A2dpCodecConfig_new sample_env 1 0,
         2 := A2dpCodecConfig_new sample_env 4 0,
         3 := A2dpCodecConfig_new sample_env 10 0,
         4 := A2dpCodecConfig_new sample_env 11 0),
      indexed_codecs_m = [0 \<mapsto> 0, 1 \<mapsto> 1, 4 \<mapsto> 2, 10 \<mapsto> 3, 11 \<mapsto> 4],
      disabled_codecs_m = Map.empty,
      ordered_source_codecs_m = [2, 1, 0],
      ordered_sink_codecs_m = [4, 3],
      current_codec_config_m = Some 1\<rparr>"

text \<open>A user configuration that names a codec index and a priority and nothing else.\<close>

definition priority_request :: "int \<Rightarrow> int \<Rightarrow> btav_a2dp_codec_config_t" where
  "priority_request codec_index priority = init_btav_a2dp_codec_config codec_index priority"

text \<open>
  The sample registry after the user has asked for 48000 Hz on the current codec: the
  user configuration of the object at address 1 is not empty.
\<close>

definition user_configured_registry :: A2dpCodecs where
  "user_configured_registry =
     sample_registry\<lparr>objects := (objects sample_registry)
       (1 := (objects sample_registry 1)
          \<lparr>codec_user_config_m := (init_btav_a2dp_codec_config 1 0)\<lparr>sample_rate := 0x2\<rparr>\<rparr>)\<rparr>"

text \<open>An AAC tagged buffer, which the sample parameters map to the codec index 1.\<close>

definition aac_wire :: bytes where
  "aac_wire = buffer_of [8, 0, 0x02, 0x80, 0x01, 0x04, 0x83, 0xE8, 0x00]"

text \<open>
  The calls the statements below are run on. On the sample registry: the sink codec of
  index 11 is given the priority 500; the source codec of index 0, which is not the
  current one, is given the priority 4000, and the priority 500. The two descriptor
  calls are those the registry makes on the object at address 0 in the latter two.
  The peer buffer is the SBC sample buffer throughout.
\<close>

definition lowered_sink_call :: "A2dpCodecs \<times> outcome" where
  "lowered_sink_call =
     A2dpCodecs_setCodecUserConfig sample_env sample_setCodecConfig sample_registry
       (priority_request 11 500) sbc_44100_stereo empty_buffer"

definition raised_source_call :: "A2dpCodecs \<times> outcome" where
  "raised_source_call =
     A2dpCodecs_setCodecUserConfig sample_env sample_setCodecConfig sample_registry
       (priority_request 0 4000) sbc_44100_stereo empty_buffer"

definition lowered_source_call :: "A2dpCodecs \<times> outcome" where
  "lowered_source_call =
     A2dpCodecs_setCodecUserConfig sample_env sample_setCodecConfig sample_registry
       (priority_request 0 500) sbc_44100_stereo empty_buffer"

definition first_source_negotiation :: "A2dpCodecConfig \<times> outcome" where
  "first_source_negotiation =
     A2dpCodecConfig_setCodecUserConfig sample_env sample_setCodecConfig
       (objects sample_registry 0) (priority_request 0 4000)
       (getCodecAudioConfig (objects sample_registry 0)) sbc_44100_stereo True empty_buffer"

definition first_source_negotiation_low :: "A2dpCodecConfig \<times> outcome" where
  "first_source_negotiation_low =
     A2dpCodecConfig_setCodecUserConfig sample_env sample_setCodecConfig
       (objects sample_registry 0) (priority_request 0 500)
       (getCodecAudioConfig (objects sample_registry 0)) sbc_44100_stereo True empty_buffer"

text \<open>
  Peer configurations arriving over the air: an AAC buffer while the current codec is
  user configured; the same buffer while the codec of index 0 is current and the AAC
  descriptor is user configured; and a buffer of unknown tag on the sample registry.
\<close>

definition ota_on_user_configured :: "A2dpCodecs \<times> outcome" where
  "ota_on_user_configured =
     A2dpCodecs_setCodecOtaConfig sample_env sample_setCodecConfig user_configured_registry
       aac_wire empty_buffer"

definition ota_on_user_configured_target :: "A2dpCodecs \<times> outcome" where
  "ota_on_user_configured_target =
     A2dpCodecs_setCodecOtaConfig sample_env sample_setCodecConfig
       (user_configured_registry\<lparr>current_codec_config_m := Some 0\<rparr>) aac_wire empty_buffer"

definition ota_with_unknown_tag :: "A2dpCodecs \<times> outcome" where
  "ota_with_unknown_tag =
     A2dpCodecs_setCodecOtaConfig sample_env sample_setCodecConfig sample_registry
       unknown_tag_buffer empty_buffer"

section \<open>Properties of the dispatch layer\<close>

lemmas sample_simps = sample_env_def sample_constants_def sample_sbc_def sample_aac_def
  sample_vendor_def sample_ldac_def sample_lhdc_def sample_lhdc_quality_def sample_lhdcv5_def
  sample_layout_def sample_offload_quality_def buffer_of_def A2DP_GetCodecType_def

lemma codec_switch_default:
  assumes "A2DP_GetCodecType E p \<noteq> A2DP_MEDIA_CT_SBC (cst E)"
      and "A2DP_GetCodecType E p \<noteq> A2DP_MEDIA_CT_AAC (cst E)"
      and "A2DP_GetCodecType E p \<noteq> A2DP_MEDIA_CT_NON_A2DP (cst E)"
  shows "codec_switch E (A2DP_GetCodecType E p) on_sbc on_aac on_vendor otherwise = otherwise"
  using assms by (simp add: codec_switch_def)

text \<open>
  Claim C9. For a buffer whose type tag is none of SBC, AAC and vendor, the four
  validity predicates answer false, \<^verbatim>\<open>A2DP_GetTrackSampleRate\<close> answers \<open>-1\<close>,
  \<^verbatim>\<open>A2DP_CodecName\<close> answers \<^verbatim>\<open>"UNKNOWN CODEC"\<close> and \<^verbatim>\<open>A2DP_SourceCodecIndex\<close>
  answers \<^verbatim>\<open>BTAV_A2DP_CODEC_INDEX_MAX\<close>. Each of them returns this value and does
  nothing else (the only other statement on the path is a log line).
\<close>

theorem unknown_tag_sentinels:
  assumes "A2DP_GetCodecType E p \<noteq> A2DP_MEDIA_CT_SBC (cst E)"
      and "A2DP_GetCodecType E p \<noteq> A2DP_MEDIA_CT_AAC (cst E)"
      and "A2DP_GetCodecType E p \<noteq> A2DP_MEDIA_CT_NON_A2DP (cst E)"
  shows "\<not> A2DP_IsSourceCodecValid E p \<and> \<not> A2DP_IsSinkCodecValid E p \<and>
         \<not> A2DP_IsPeerSourceCodecValid E p \<and> \<not> A2DP_IsPeerSinkCodecValid E p \<and>
         A2DP_GetTrackSampleRate E p = - 1 \<and>
         A2DP_CodecName E p = ''UNKNOWN CODEC'' \<and>
         A2DP_SourceCodecIndex E p = BTAV_A2DP_CODEC_INDEX_MAX (cst E)"
  unfolding A2DP_IsSourceCodecValid_def A2DP_IsSinkCodecValid_def A2DP_IsPeerSourceCodecValid_def
    A2DP_IsPeerSinkCodecValid_def A2DP_GetTrackSampleRate_def A2DP_CodecName_def
    A2DP_SourceCodecIndex_def
  by (simp only: codec_switch_default [OF assms] simp_thms)

theorem unknown_tag_sentinels_witness:
  "A2DP_GetCodecType sample_env unknown_tag_buffer \<noteq> A2DP_MEDIA_CT_SBC (cst sample_env) \<and>
   A2DP_GetCodecType sample_env unknown_tag_buffer \<noteq> A2DP_MEDIA_CT_AAC (cst sample_env) \<and>
   A2DP_GetCodecType sample_env unknown_tag_buffer \<noteq> A2DP_MEDIA_CT_NON_A2DP (cst sample_env) \<and>
   \<not> A2DP_IsSourceCodecValid sample_env unknown_tag_buffer \<and>
   \<not> A2DP_IsSinkCodecValid sample_env unknown_tag_buffer \<and>
   \<not> A2DP_IsPeerSourceCodecValid sample_env unknown_tag_buffer \<and>
   \<not> A2DP_IsPeerSinkCodecValid sample_env unknown_tag_buffer \<and>
   A2DP_GetTrackSampleRate sample_env unknown_tag_buffer = - 1 \<and>
   A2DP_CodecName sample_env unknown_tag_buffer = ''UNKNOWN CODEC'' \<and>
   A2DP_SourceCodecIndex sample_env unknown_tag_buffer = 16"
proof -
  have tag: "A2DP_GetCodecType sample_env unknown_tag_buffer = 1"
    by (simp add: sample_simps unknown_tag_buffer_def)
  have tags: "A2DP_MEDIA_CT_SBC (cst sample_env) = 0" "A2DP_MEDIA_CT_AAC (cst sample_env) = 2"
    "A2DP_MEDIA_CT_NON_A2DP (cst sample_env) = 0xFF"
    "BTAV_A2DP_CODEC_INDEX_MAX (cst sample_env) = 16"
    by (simp_all add: sample_simps)
  show ?thesis
    using unknown_tag_sentinels [of sample_env unknown_tag_buffer] by (simp add: tag tags)
qed

text \<open>
  Claim C10. \<^verbatim>\<open>A2DP_UsesRtpHeader\<close> answers true for every buffer whose type tag
  is not the vendor tag, known or not; a vendor tagged buffer gets the answer of the
  vendor policy (or true where the vendor codecs are compiled out), so the vendor
  policy is consulted for vendor tagged buffers only.
\<close>

theorem uses_rtp_header_by_tag:
  "(A2DP_GetCodecType E p \<noteq> A2DP_MEDIA_CT_NON_A2DP (cst E) \<longrightarrow>
      A2DP_UsesRtpHeader E content_protection_enabled p) \<and>
   (A2DP_GetCodecType E p = A2DP_MEDIA_CT_NON_A2DP (cst E) \<longrightarrow>
      A2DP_UsesRtpHeader E content_protection_enabled p =
        (if EXCLUDE_NONSTANDARD_CODECS (cst E) then True
         else A2DP_VendorUsesRtpHeader (vendor E) content_protection_enabled p))"
  by (simp add: A2DP_UsesRtpHeader_def)

theorem uses_rtp_header_by_tag_witness:
  "A2DP_GetCodecType sample_env unknown_tag_buffer \<noteq> A2DP_MEDIA_CT_NON_A2DP (cst sample_env) \<and>
   A2DP_UsesRtpHeader sample_env False unknown_tag_buffer \<and>
   A2DP_GetCodecType sample_env sbc_44100_stereo \<noteq> A2DP_MEDIA_CT_NON_A2DP (cst sample_env) \<and>
   A2DP_UsesRtpHeader sample_env False sbc_44100_stereo \<and>
   A2DP_GetCodecType sample_env (lhdc_wire 0x33 0x01 0x01) = A2DP_MEDIA_CT_NON_A2DP (cst sample_env) \<and>
   A2DP_UsesRtpHeader sample_env False (lhdc_wire 0x33 0x01 0x01) =
     A2DP_VendorUsesRtpHeader (vendor sample_env) False (lhdc_wire 0x33 0x01 0x01)"
proof -
  have tags: "A2DP_GetCodecType sample_env unknown_tag_buffer = 1"
    "A2DP_GetCodecType sample_env sbc_44100_stereo = 0"
    "A2DP_GetCodecType sample_env (lhdc_wire 0x33 0x01 0x01) = 0xFF"
    by (simp_all add: sample_simps unknown_tag_buffer_def sbc_44100_stereo_def lhdc_wire_def)
  have cs: "A2DP_MEDIA_CT_NON_A2DP (cst sample_env) = 0xFF"
    "\<not> EXCLUDE_NONSTANDARD_CODECS (cst sample_env)"
    by (simp_all add: sample_simps)
  show ?thesis
    using uses_rtp_header_by_tag [of sample_env unknown_tag_buffer False]
      uses_rtp_header_by_tag [of sample_env sbc_44100_stereo False]
      uses_rtp_header_by_tag [of sample_env "lhdc_wire 0x33 0x01 0x01" False]
    by (simp add: tags cs)
qed

section \<open>Properties of the offload encoder\<close>

text \<open>
  Claim C8. When the negotiated wire buffer carries the SBC tag and is a valid SBC
  source codec, \<^verbatim>\<open>getCodecSpecificConfig\<close> returns true, byte 0 of the offload array
  is wire byte 4, byte 1 is wire byte 5, byte 2 is wire byte 6, byte 3 is wire byte 3,
  and every other byte of the array is 0, whatever the array held before; nothing is
  written past the array. When the wire buffer is not a valid source codec the call
  returns false and every byte of the array is 0.
\<close>

theorem sbc_offload_bytes:
  "(A2DP_GetCodecType E (ota_codec_config_m this) = A2DP_MEDIA_CT_SBC (cst E) \<and>
    A2DP_IsSourceCodecValidSbc (sbc E) (ota_codec_config_m this) \<longrightarrow>
      fst (getCodecSpecificConfig E this offload_codec_info) \<and>
      snd (getCodecSpecificConfig E this offload_codec_info) 0 = ota_codec_config_m this 4 \<and>
      snd (getCodecSpecificConfig E this offload_codec_info) 1 = ota_codec_config_m this 5 \<and>
      snd (getCodecSpecificConfig E this offload_codec_info) 2 = ota_codec_config_m this 6 \<and>
      snd (getCodecSpecificConfig E this offload_codec_info) 3 = ota_codec_config_m this 3 \<and>
      (\<forall>i. 3 < i \<and> i < sizeof_offload_codec_info (cst E) \<longrightarrow>
         snd (getCodecSpecificConfig E this offload_codec_info) i = 0) \<and>
      (\<forall>i. 3 < i \<and> sizeof_offload_codec_info (cst E) \<le> i \<longrightarrow>
         snd (getCodecSpecificConfig E this offload_codec_info) i = offload_codec_info i)) \<and>
   (\<not> A2DP_IsSourceCodecValid E (ota_codec_config_m this) \<longrightarrow>
      \<not> fst (getCodecSpecificConfig E this offload_codec_info) \<and>
      (\<forall>i. i < sizeof_offload_codec_info (cst E) \<longrightarrow>
         snd (getCodecSpecificConfig E this offload_codec_info) i = 0) \<and>
      (\<forall>i. sizeof_offload_codec_info (cst E) \<le> i \<longrightarrow>
         snd (getCodecSpecificConfig E this offload_codec_info) i = offload_codec_info i))"
  by (simp add: getCodecSpecificConfig_def A2DP_IsSourceCodecValid_def codec_switch_def Let_def
      memset_zero_def)

text \<open>
  The instance of the specification: 16 blocks, 8 subbands, bitpool 2 to 53,
  44100 Hz, stereo, over an array of 32 bytes that held \<open>0xAA\<close> everywhere before the
  call. The four offload bytes are \<open>0x15\<close>, \<open>2\<close>, \<open>53\<close> and \<open>0x22\<close>, the bytes 4 and 31
  are 0, and offset 32, past the array, still holds \<open>0xAA\<close>. A buffer with a wrong
  length byte is refused, and the bytes 0 and 31 are 0 then.
\<close>

theorem sbc_offload_bytes_witness:
  "A2DP_GetCodecType sample_env (ota_codec_config_m (object_with_ota 0 sbc_44100_stereo)) =
     A2DP_MEDIA_CT_SBC (cst sample_env) \<and>
   A2DP_IsSourceCodecValidSbc (sbc sample_env)
     (ota_codec_config_m (object_with_ota 0 sbc_44100_stereo)) \<and>
   fst (getCodecSpecificConfig sample_env (object_with_ota 0 sbc_44100_stereo) stale_offload) \<and>
   snd (getCodecSpecificConfig sample_env (object_with_ota 0 sbc_44100_stereo) stale_offload) 0 = 0x15 \<and>
   snd (getCodecSpecificConfig sample_env (object_with_ota 0 sbc_44100_stereo) stale_offload) 1 = 2 \<and>
   snd (getCodecSpecificConfig sample_env (object_with_ota 0 sbc_44100_stereo) stale_offload) 2 = 53 \<and>
   snd (getCodecSpecificConfig sample_env (object_with_ota 0 sbc_44100_stereo) stale_offload) 3 = 0x22 \<and>
   snd (getCodecSpecificConfig sample_env (object_with_ota 0 sbc_44100_stereo) stale_offload) 4 = 0 \<and>
   snd (getCodecSpecificConfig sample_env (object_with_ota 0 sbc_44100_stereo) stale_offload) 31 = 0 \<and>
   snd (getCodecSpecificConfig sample_env (object_with_ota 0 sbc_44100_stereo) stale_offload) 32 = 0xAA \<and>
   stale_offload 4 = 0xAA \<and>
   \<not> A2DP_IsSourceCodecValid sample_env (ota_codec_config_m (object_with_ota 0 sbc_truncated)) \<and>
   \<not> fst (getCodecSpecificConfig sample_env (object_with_ota 0 sbc_truncated) stale_offload) \<and>
   snd (getCodecSpecificConfig sample_env (object_with_ota 0 sbc_truncated) stale_offload) 0 = 0 \<and>
   snd (getCodecSpecificConfig sample_env (object_with_ota 0 sbc_truncated) stale_offload) 31 = 0"
proof -
  have ota: "ota_codec_config_m (object_with_ota 0 b) = b" for b
    by (simp add: object_with_ota_def)
  have good: "A2DP_GetCodecType sample_env sbc_44100_stereo = A2DP_MEDIA_CT_SBC (cst sample_env)"
    "A2DP_IsSourceCodecValidSbc (sbc sample_env) sbc_44100_stereo"
    "sbc_44100_stereo 3 = 0x22" "sbc_44100_stereo 4 = 0x15"
    "sbc_44100_stereo 5 = 2" "sbc_44100_stereo 6 = 53"
    by (simp_all add: sample_simps sbc_44100_stereo_def)
  have bad: "\<not> A2DP_IsSourceCodecValid sample_env sbc_truncated"
    by (simp add: A2DP_IsSourceCodecValid_def codec_switch_def sample_simps sbc_truncated_def)
  have size: "sizeof_offload_codec_info (cst sample_env) = 32"
    by (simp add: sample_simps)
  have stale: "stale_offload i = 0xAA" for i
    by (simp add: stale_offload_def)
  show ?thesis
    using sbc_offload_bytes [of sample_env "object_with_ota 0 sbc_44100_stereo" stale_offload]
      sbc_offload_bytes [of sample_env "object_with_ota 0 sbc_truncated" stale_offload]
    by (simp add: ota good bad size stale)
qed

lemma vendor_case:
  assumes "identifiers_distinct E" and "lhdc_codec_info E (ota_codec_config_m this) cid"
  shows "fst (getCodecSpecificConfig E this info) \<longrightarrow>
         fst (offload_vendor E this (ota_codec_config_m this)
                (memset_zero (sizeof_offload_codec_info (cst E)) info))"
  using assms
  by (simp add: getCodecSpecificConfig_def identifiers_distinct_def lhdc_codec_info_def
      codec_switch_def A2DP_IsSourceCodecValid_def Let_def)

lemma lhdc_chain:
  assumes "identifiers_distinct E" and "lhdc_codec_info E c cid"
  shows "fst (offload_vendor E this c info) \<longrightarrow>
     (\<exists>info1.
       (cid = A2DP_LHDCV3_CODEC_ID (lhdc E) \<longrightarrow> fst (offload_lhdcv3 E this c info1)) \<and>
       (cid = A2DP_LHDCV2_CODEC_ID (lhdc E) \<longrightarrow> fst (offload_lhdcv2 E this c info1)) \<and>
       (cid = A2DP_LHDCV5_CODEC_ID (lhdc E) \<longrightarrow> fst (offload_lhdcv5 E this c info1)))"
  using assms
  by (auto simp add: offload_vendor_def identifiers_distinct_def lhdc_codec_info_def Let_def)

lemma split_mode_fails:
  "c 11 AND A2DP_LHDC_CH_SPLIT_MSK (lhdc E) \<noteq> A2DP_LHDC_CH_SPLIT_NONE (lhdc E) \<Longrightarrow>
   c 11 AND A2DP_LHDC_CH_SPLIT_MSK (lhdc E) \<noteq> A2DP_LHDC_CH_SPLIT_TWS (lhdc E) \<Longrightarrow>
   \<not> fst (lhdc_split_mode E c info)"
  by (simp add: lhdc_split_mode_def)

lemma lhdcv3_fails:
  "(c 10 AND A2DP_LHDC_VERSION_MASK (lhdc E) \<noteq> A2DP_LHDC_VER3 (lhdc E) \<and>
    c 10 AND A2DP_LHDC_VERSION_MASK (lhdc E) \<noteq> A2DP_LHDC_VER6 (lhdc E)) \<or>
   (c 11 AND A2DP_LHDC_CH_SPLIT_MSK (lhdc E) \<noteq> A2DP_LHDC_CH_SPLIT_NONE (lhdc E) \<and>
    c 11 AND A2DP_LHDC_CH_SPLIT_MSK (lhdc E) \<noteq> A2DP_LHDC_CH_SPLIT_TWS (lhdc E)) \<Longrightarrow>
   \<not> fst (offload_lhdcv3 E this c info)"
  by (auto simp add: offload_lhdcv3_def Let_def split_mode_fails)

lemma lhdcv2_fails:
  "c 10 AND A2DP_LHDC_VERSION_MASK (lhdc E) > A2DP_LHDC_VER2 (lhdc E) \<or>
   (c 11 AND A2DP_LHDC_CH_SPLIT_MSK (lhdc E) \<noteq> A2DP_LHDC_CH_SPLIT_NONE (lhdc E) \<and>
    c 11 AND A2DP_LHDC_CH_SPLIT_MSK (lhdc E) \<noteq> A2DP_LHDC_CH_SPLIT_TWS (lhdc E)) \<Longrightarrow>
   \<not> fst (offload_lhdcv2 E this c info)"
  by (auto simp add: offload_lhdcv2_def Let_def split_mode_fails)

lemma lhdcv5_fails:
  "c 11 AND A2DP_LHDCV5_VERSION_MASK (lhdcv5 E) \<noteq> A2DP_LHDCV5_VER_1 (lhdcv5 E) \<or>
   c 11 AND A2DP_LHDCV5_FRAME_LEN_MASK (lhdcv5 E) = 0 \<Longrightarrow>
   \<not> fst (offload_lhdcv5 E this c info)"
  by (auto simp add: offload_lhdcv5_def Let_def)

text \<open>
  Claim C7. For a wire buffer of the LHDC family, \<^verbatim>\<open>getCodecSpecificConfig\<close> returns
  false when the buffer carries a protocol version the branch does not support (V3:
  neither \<^verbatim>\<open>VER3\<close> nor \<^verbatim>\<open>VER6\<close>; V2: above \<^verbatim>\<open>VER2\<close>; V5: not \<^verbatim>\<open>VER_1\<close>), when a
  V3 or V2 buffer carries a split mode that is neither \<^verbatim>\<open>NONE\<close> nor \<^verbatim>\<open>TWS\<close>, and
  when a V5 buffer carries no frame duration bit. No validity of the buffer is
  assumed: an invalid buffer is refused before the branch is reached.
\<close>

theorem lhdc_unsupported_rejected:
  assumes "identifiers_distinct E" and "ota_codec_config_m this = c"
  shows
   "(lhdc_codec_info E c (A2DP_LHDCV3_CODEC_ID (lhdc E)) \<and>
     c 10 AND A2DP_LHDC_VERSION_MASK (lhdc E) \<noteq> A2DP_LHDC_VER3 (lhdc E) \<and>
     c 10 AND A2DP_LHDC_VERSION_MASK (lhdc E) \<noteq> A2DP_LHDC_VER6 (lhdc E)
       \<longrightarrow> \<not> fst (getCodecSpecificConfig E this info)) \<and>
    (lhdc_codec_info E c (A2DP_LHDCV2_CODEC_ID (lhdc E)) \<and>
     c 10 AND A2DP_LHDC_VERSION_MASK (lhdc E) > A2DP_LHDC_VER2 (lhdc E)
       \<longrightarrow> \<not> fst (getCodecSpecificConfig E this info)) \<and>
    (lhdc_codec_info E c (A2DP_LHDCV5_CODEC_ID (lhdc E)) \<and>
     c 11 AND A2DP_LHDCV5_VERSION_MASK (lhdcv5 E) \<noteq> A2DP_LHDCV5_VER_1 (lhdcv5 E)
       \<longrightarrow> \<not> fst (getCodecSpecificConfig E this info)) \<and>
    (lhdc_codec_info E c (A2DP_LHDCV3_CODEC_ID (lhdc E)) \<and>
     c 11 AND A2DP_LHDC_CH_SPLIT_MSK (lhdc E) \<noteq> A2DP_LHDC_CH_SPLIT_NONE (lhdc E) \<and>
     c 11 AND A2DP_LHDC_CH_SPLIT_MSK (lhdc E) \<noteq> A2DP_LHDC_CH_SPLIT_TWS (lhdc E)
       \<longrightarrow> \<not> fst (getCodecSpecificConfig E this info)) \<and>
    (lhdc_codec_info E c (A2DP_LHDCV2_CODEC_ID (lhdc E)) \<and>
     c 11 AND A2DP_LHDC_CH_SPLIT_MSK (lhdc E) \<noteq> A2DP_LHDC_CH_SPLIT_NONE (lhdc E) \<and>
     c 11 AND A2DP_LHDC_CH_SPLIT_MSK (lhdc E) \<noteq> A2DP_LHDC_CH_SPLIT_TWS (lhdc E)
       \<longrightarrow> \<not> fst (getCodecSpecificConfig E this info)) \<and>
    (lhdc_codec_info E c (A2DP_LHDCV5_CODEC_ID (lhdc E)) \<and>
     c 11 AND A2DP_LHDCV5_FRAME_LEN_MASK (lhdcv5 E) = 0
       \<longrightarrow> \<not> fst (getCodecSpecificConfig E this info))"
proof -
  have branch: "fst (getCodecSpecificConfig E this info) \<longrightarrow>
     (\<exists>info1.
       (cid = A2DP_LHDCV3_CODEC_ID (lhdc E) \<longrightarrow> fst (offload_lhdcv3 E this c info1)) \<and>
       (cid = A2DP_LHDCV2_CODEC_ID (lhdc E) \<longrightarrow> fst (offload_lhdcv2 E this c info1)) \<and>
       (cid = A2DP_LHDCV5_CODEC_ID (lhdc E) \<longrightarrow> fst (offload_lhdcv5 E this c info1)))"
    if "lhdc_codec_info E c cid" for cid
    using vendor_case [of E this cid info] lhdc_chain [OF assms(1) that, of this] assms that
    by blast
  have v3: "\<not> fst (getCodecSpecificConfig E this info)"
    if "lhdc_codec_info E c (A2DP_LHDCV3_CODEC_ID (lhdc E))"
      and "(c 10 AND A2DP_LHDC_VERSION_MASK (lhdc E) \<noteq> A2DP_LHDC_VER3 (lhdc E) \<and>
            c 10 AND A2DP_LHDC_VERSION_MASK (lhdc E) \<noteq> A2DP_LHDC_VER6 (lhdc E)) \<or>
           (c 11 AND A2DP_LHDC_CH_SPLIT_MSK (lhdc E) \<noteq> A2DP_LHDC_CH_SPLIT_NONE (lhdc E) \<and>
            c 11 AND A2DP_LHDC_CH_SPLIT_MSK (lhdc E) \<noteq> A2DP_LHDC_CH_SPLIT_TWS (lhdc E))"
    using branch [OF that(1)] lhdcv3_fails [where c = c and E = E and this = this] that(2)
    by blast
  have v2: "\<not> fst (getCodecSpecificConfig E this info)"
    if "lhdc_codec_info E c (A2DP_LHDCV2_CODEC_ID (lhdc E))"
      and "c 10 AND A2DP_LHDC_VERSION_MASK (lhdc E) > A2DP_LHDC_VER2 (lhdc E) \<or>
           (c 11 AND A2DP_LHDC_CH_SPLIT_MSK (lhdc E) \<noteq> A2DP_LHDC_CH_SPLIT_NONE (lhdc E) \<and>
            c 11 AND A2DP_LHDC_CH_SPLIT_MSK (lhdc E) \<noteq> A2DP_LHDC_CH_SPLIT_TWS (lhdc E))"
    using branch [OF that(1)] lhdcv2_fails [where c = c and E = E and this = this] that(2)
    by blast
  have v5: "\<not> fst (getCodecSpecificConfig E this info)"
    if "lhdc_codec_info E c (A2DP_LHDCV5_CODEC_ID (lhdc E))"
      and "c 11 AND A2DP_LHDCV5_VERSION_MASK (lhdcv5 E) \<noteq> A2DP_LHDCV5_VER_1 (lhdcv5 E) \<or>
           c 11 AND A2DP_LHDCV5_FRAME_LEN_MASK (lhdcv5 E) = 0"
    using branch [OF that(1)] lhdcv5_fails [where c = c and E = E and this = this] that(2)
    by blast
  show ?thesis using v3 v2 v5 by blast
qed

text \<open>
  Six buffers, one for each case: version 2 in a V3 buffer, version 2 in a V2 buffer,
  version 2 in a V5 buffer, split mode 4 in a V3 and in a V2 buffer, and a V5 buffer
  without the frame duration bit.
\<close>

theorem lhdc_unsupported_rejected_witness:
  "identifiers_distinct sample_env \<and>
   lhdc_codec_info sample_env (lhdc_wire 0x33 0x02 0x01) (A2DP_LHDCV3_CODEC_ID (lhdc sample_env)) \<and>
   \<not> fst (getCodecSpecificConfig sample_env (object_with_ota 6 (lhdc_wire 0x33 0x02 0x01)) stale_offload) \<and>
   lhdc_codec_info sample_env (lhdc_wire 0x32 0x02 0x01) (A2DP_LHDCV2_CODEC_ID (lhdc sample_env)) \<and>
   \<not> fst (getCodecSpecificConfig sample_env (object_with_ota 5 (lhdc_wire 0x32 0x02 0x01)) stale_offload) \<and>
   lhdc_codec_info sample_env (lhdc_wire 0x35 0x00 0x12) (A2DP_LHDCV5_CODEC_ID (lhdc sample_env)) \<and>
   \<not> fst (getCodecSpecificConfig sample_env (object_with_ota 7 (lhdc_wire 0x35 0x00 0x12)) stale_offload) \<and>
   lhdc_codec_info sample_env (lhdc_wire 0x33 0x01 0x04) (A2DP_LHDCV3_CODEC_ID (lhdc sample_env)) \<and>
   \<not> fst (getCodecSpecificConfig sample_env (object_with_ota 6 (lhdc_wire 0x33 0x01 0x04)) stale_offload) \<and>
   lhdc_codec_info sample_env (lhdc_wire 0x32 0x01 0x04) (A2DP_LHDCV2_CODEC_ID (lhdc sample_env)) \<and>
   \<not> fst (getCodecSpecificConfig sample_env (object_with_ota 5 (lhdc_wire 0x32 0x01 0x04)) stale_offload) \<and>
   lhdc_codec_info sample_env (lhdc_wire 0x35 0x00 0x01) (A2DP_LHDCV5_CODEC_ID (lhdc sample_env)) \<and>
   \<not> fst (getCodecSpecificConfig sample_env (object_with_ota 7 (lhdc_wire 0x35 0x00 0x01)) stale_offload)"
proof -
  have ota: "ota_codec_config_m (object_with_ota i b) = b" for i b
    by (simp add: object_with_ota_def)
  have d: "identifiers_distinct sample_env"
    by (simp add: identifiers_distinct_def sample_simps)
  have k: "lhdc_codec_info sample_env (lhdc_wire 0x33 b10 b11) (A2DP_LHDCV3_CODEC_ID (lhdc sample_env))"
    "lhdc_codec_info sample_env (lhdc_wire 0x32 b10 b11) (A2DP_LHDCV2_CODEC_ID (lhdc sample_env))"
    "lhdc_codec_info sample_env (lhdc_wire 0x35 b10 b11) (A2DP_LHDCV5_CODEC_ID (lhdc sample_env))"
    for b10 b11
    by (simp_all add: lhdc_codec_info_def lhdc_wire_def sample_simps)
  have b: "lhdc_wire l b10 b11 10 = b10" "lhdc_wire l b10 b11 11 = b11" for l b10 b11
    by (simp_all add: lhdc_wire_def buffer_of_def)
  have m: "A2DP_LHDC_VERSION_MASK (lhdc sample_env) = 0x0F" "A2DP_LHDC_VER2 (lhdc sample_env) = 1"
    "A2DP_LHDC_VER3 (lhdc sample_env) = 1" "A2DP_LHDC_VER6 (lhdc sample_env) = 8"
    "A2DP_LHDC_CH_SPLIT_MSK (lhdc sample_env) = 0x0F" "A2DP_LHDC_CH_SPLIT_NONE (lhdc sample_env) = 1"
    "A2DP_LHDC_CH_SPLIT_TWS (lhdc sample_env) = 2"
    "A2DP_LHDCV5_VERSION_MASK (lhdcv5 sample_env) = 0x0F" "A2DP_LHDCV5_VER_1 (lhdcv5 sample_env) = 1"
    "A2DP_LHDCV5_FRAME_LEN_MASK (lhdcv5 sample_env) = 0x10"
    by (simp_all add: sample_simps)
  show ?thesis
    using
      lhdc_unsupported_rejected [OF d ota [of 6 "lhdc_wire 0x33 0x02 0x01"], where info = stale_offload]
      lhdc_unsupported_rejected [OF d ota [of 5 "lhdc_wire 0x32 0x02 0x01"], where info = stale_offload]
      lhdc_unsupported_rejected [OF d ota [of 7 "lhdc_wire 0x35 0x00 0x12"], where info = stale_offload]
      lhdc_unsupported_rejected [OF d ota [of 6 "lhdc_wire 0x33 0x01 0x04"], where info = stale_offload]
      lhdc_unsupported_rejected [OF d ota [of 5 "lhdc_wire 0x32 0x01 0x04"], where info = stale_offload]
      lhdc_unsupported_rejected [OF d ota [of 7 "lhdc_wire 0x35 0x00 0x01"], where info = stale_offload]
    by (simp add: d k b m)
qed

text \<open>
  For contrast, a V3 buffer with version \<^verbatim>\<open>VER3\<close> and split mode \<^verbatim>\<open>NONE\<close> is
  encoded: the call returns true.
\<close>

lemma lhdcv3_supported_buffer_accepted:
  "fst (getCodecSpecificConfig sample_env (object_with_ota 6 (lhdc_wire 0x33 0x01 0x01))
          stale_offload)"
  by (simp add: getCodecSpecificConfig_def A2DP_IsSourceCodecValid_def codec_switch_def
      offload_vendor_def offload_lhdcv3_def lhdc_split_mode_def Let_def object_with_ota_def
      lhdc_wire_def sample_simps)

section \<open>Properties of the descriptor\<close>

lemmas descriptor_call_simps = A2dpCodecConfig_setCodecUserConfig_def Let_def getCodecConfig_def
  sample_setCodecConfig_def A2DP_IsPeerSinkCodecValid_def A2DP_CodecEquals_def codec_switch_def





text \<open>
  Claim C2. When \<^verbatim>\<open>A2dpCodecConfig::setCodecUserConfig\<close> returns false, the user
  and the audio configuration are those of before the call, whatever the codec's
  \<^verbatim>\<open>setCodecConfig\<close> did; the negotiated configuration and the wire configuration
  are those of before the call because the failed \<^verbatim>\<open>setCodecConfig\<close> left them so.
\<close>

theorem failed_call_restores_snapshots:
  assumes "A2dpCodecConfig_setCodecUserConfig E setCodecConfig this codec_user_config
             codec_audio_config p_peer_codec_info is_capability p_result = (this', out)"
      and "\<not> returned out"
      and "setCodecConfig_rolls_back setCodecConfig"
  shows "codec_config_m this' = codec_config_m this \<and>
         ota_codec_config_m this' = ota_codec_config_m this \<and>
         codec_user_config_m this' = codec_user_config_m this \<and>
         codec_audio_config_m this' = codec_audio_config_m this"
proof -
  let ?this2 = "this\<lparr>codec_user_config_m := codec_user_config,
                      codec_audio_config_m := codec_audio_config\<rparr>"
  let ?r = "setCodecConfig ?this2 p_peer_codec_info is_capability p_result"
  have failed: "\<not> fst ?r"
    using assms(1,2)
    by (auto simp add: A2dpCodecConfig_setCodecUserConfig_def Let_def split: prod.splits if_splits)
  have this': "this' = (fst (snd ?r))\<lparr>codec_user_config_m := codec_user_config_m this,
                                      codec_audio_config_m := codec_audio_config_m this\<rparr>"
    using assms(1,2)
    by (auto simp add: A2dpCodecConfig_setCodecUserConfig_def Let_def split: prod.splits if_splits)
  have kept: "codec_config_m (fst (snd ?r)) = codec_config_m ?this2"
    "ota_codec_config_m (fst (snd ?r)) = ota_codec_config_m ?this2"
    using assms(3) failed unfolding setCodecConfig_rolls_back_def by blast+
  show ?thesis using kept by (simp add: this')
qed

text \<open>
  The user configuration with \<^verbatim>\<open>codec_specific_4 = 1\<close> offered to the negotiated
  sample descriptor together with a peer buffer of unknown tag: the call fails and the
  four snapshots are as before.
\<close>

theorem failed_call_restores_snapshots_witness:
  "setCodecConfig_rolls_back sample_setCodecConfig \<and>
   \<not> returned (snd (A2dpCodecConfig_setCodecUserConfig sample_env sample_setCodecConfig
       negotiated_object user_config_cs4 user_config_cs4 unknown_tag_buffer True empty_buffer)) \<and>
   codec_config_m (fst (A2dpCodecConfig_setCodecUserConfig sample_env sample_setCodecConfig
       negotiated_object user_config_cs4 user_config_cs4 unknown_tag_buffer True empty_buffer)) =
     codec_config_m negotiated_object \<and>
   ota_codec_config_m (fst (A2dpCodecConfig_setCodecUserConfig sample_env sample_setCodecConfig
       negotiated_object user_config_cs4 user_config_cs4 unknown_tag_buffer True empty_buffer)) =
     ota_codec_config_m negotiated_object \<and>
   codec_user_config_m (fst (A2dpCodecConfig_setCodecUserConfig sample_env sample_setCodecConfig
       negotiated_object user_config_cs4 user_config_cs4 unknown_tag_buffer True empty_buffer)) =
     codec_user_config_m negotiated_object \<and>
   codec_audio_config_m (fst (A2dpCodecConfig_setCodecUserConfig sample_env sample_setCodecConfig
       negotiated_object user_config_cs4 user_config_cs4 unknown_tag_buffer True empty_buffer)) =
     codec_audio_config_m negotiated_object"
proof -
  let ?call = "A2dpCodecConfig_setCodecUserConfig sample_env sample_setCodecConfig
       negotiated_object user_config_cs4 user_config_cs4 unknown_tag_buffer True empty_buffer"
  have call: "?call = (fst ?call, snd ?call)"
    by simp
  have refused: "\<not> A2DP_IsPeerSinkCodecValid sample_env unknown_tag_buffer"
    by (simp add: A2DP_IsPeerSinkCodecValid_def codec_switch_def sample_simps
        unknown_tag_buffer_def)
  have failed: "\<not> returned (snd ?call)"
    using refused by (simp add: A2dpCodecConfig_setCodecUserConfig_def Let_def
        sample_setCodecConfig_def)
  have contract: "setCodecConfig_rolls_back sample_setCodecConfig"
    by (simp add: setCodecConfig_rolls_back_def sample_setCodecConfig_def)
  show ?thesis
    using failed_call_restores_snapshots [OF call failed contract] failed contract
    by simp
qed

section \<open>Properties of the registry\<close>

lemma insert_by_set: "set (insert_by cmp x xs) = insert x (set xs)"
  by (induction xs) auto

lemma list_sort_set: "set (list_sort cmp xs) = set xs"
  by (induction xs) (auto simp: insert_by_set)

lemma insert_by_length: "length (insert_by cmp x xs) = Suc (length xs)"
  by (induction xs) auto

lemma list_sort_length: "length (list_sort cmp xs) = length xs"
  by (induction xs) (auto simp: insert_by_length)

lemma compare_asym: "compare_codec_priority a b \<Longrightarrow> \<not> compare_codec_priority b a"
  by (auto simp: compare_codec_priority_def split: if_splits)

lemma compare_negtrans:
  "\<not> compare_codec_priority a b \<Longrightarrow> \<not> compare_codec_priority b c \<Longrightarrow> \<not> compare_codec_priority a c"
  by (auto simp: compare_codec_priority_def split: if_splits)

lemma insert_by_ordered:
  "ordered_by_priority h xs \<Longrightarrow>
   ordered_by_priority h (insert_by (\<lambda>a b. compare_codec_priority (h a) (h b)) x xs)"
proof (induction xs)
  case Nil
  then show ?case by (simp add: ordered_by_priority_def)
next
  case (Cons y ys)
  show ?case
  proof (cases "compare_codec_priority (h y) (h x)")
    case True
    then show ?thesis
      using Cons compare_asym [OF True]
      by (auto simp: ordered_by_priority_def insert_by_set)
  next
    case False
    have "\<not> compare_codec_priority (h z) (h x)" if "z \<in> set ys" for z
      using Cons.prems that compare_negtrans [OF _ False, of "h z"]
      by (auto simp: ordered_by_priority_def)
    then show ?thesis
      using Cons.prems False by (auto simp: ordered_by_priority_def)
  qed
qed

lemma list_sort_ordered:
  "ordered_by_priority h (list_sort (\<lambda>a b. compare_codec_priority (h a) (h b)) xs)"
proof (induction xs)
  case Nil
  then show ?case by (simp add: ordered_by_priority_def)
next
  case (Cons x xs)
  then show ?case by (simp add: insert_by_ordered)
qed

lemma reconcile_lists:
  "reconcile_priority E r l t p out = (r', out') \<Longrightarrow>
   ordered_source_codecs_m r' = ordered_source_codecs_m r \<and>
   ordered_sink_codecs_m r' = ordered_sink_codecs_m r"
  by (auto simp: reconcile_priority_def Let_def split: option.splits if_splits)

lemma ordered_by_priority_cong:
  "(\<And>a. a \<in> set ps \<Longrightarrow> h' a = h a) \<Longrightarrow> ordered_by_priority h' ps = ordered_by_priority h ps"
  unfolding ordered_by_priority_def
  by (induction ps) auto

lemma reconcile_objects:
  "reconcile_priority E r last_codec_config t p out = (r', out') \<Longrightarrow>
   a \<noteq> t \<Longrightarrow> Some a \<noteq> last_codec_config \<Longrightarrow> objects r' a = objects r a"
  by (auto simp: reconcile_priority_def Let_def split: option.splits if_splits)

lemma user_config_objects:
  assumes "A2dpCodecs_setCodecUserConfig E setCodecConfig r codec_user_config
             p_peer_sink_capabilities p_result = (r', out)"
      and "Some a \<noteq> user_config_target E r codec_user_config"
      and "Some a \<noteq> current_codec_config_m r"
  shows "objects r' a = objects r a"
  using assms
  by (auto simp: A2dpCodecs_setCodecUserConfig_def Let_def registry_fail_def
      split: option.splits prod.splits if_splits dest!: reconcile_objects [where a = a])

text \<open>
  Claim C3, as the code has it. After a successful \<^verbatim>\<open>A2dpCodecs::setCodecUserConfig\<close>,
  the only registry operation that changes a priority, the list of source codecs
  holds the entries it held before and is in the order of \<^verbatim>\<open>compare_codec_priority\<close>
  (larger priority first, larger codec index first among equal priorities). The list of
  sink codecs is the list of before the call, for the operation does not sort it; it
  is still in order if it was and neither the descriptor the call worked on nor the
  codec that was current is one of its entries.
\<close>

theorem source_list_sorted_after_user_config:
  assumes "A2dpCodecs_setCodecUserConfig E setCodecConfig r codec_user_config
             p_peer_sink_capabilities p_result = (r', out)"
      and "returned out"
  shows "ordered_by_priority (objects r') (ordered_source_codecs_m r') \<and>
         set (ordered_source_codecs_m r') = set (ordered_source_codecs_m r) \<and>
         length (ordered_source_codecs_m r') = length (ordered_source_codecs_m r) \<and>
         ordered_sink_codecs_m r' = ordered_sink_codecs_m r \<and>
         (ordered_by_priority (objects r) (ordered_sink_codecs_m r) \<and>
          user_config_target E r codec_user_config \<notin> Some ` set (ordered_sink_codecs_m r) \<and>
          current_codec_config_m r \<notin> Some ` set (ordered_sink_codecs_m r) \<longrightarrow>
            ordered_by_priority (objects r') (ordered_sink_codecs_m r'))"
proof -
  have main: "ordered_by_priority (objects r') (ordered_source_codecs_m r') \<and>
         set (ordered_source_codecs_m r') = set (ordered_source_codecs_m r) \<and>
         length (ordered_source_codecs_m r') = length (ordered_source_codecs_m r) \<and>
         ordered_sink_codecs_m r' = ordered_sink_codecs_m r"
    using assms
    by (auto simp: A2dpCodecs_setCodecUserConfig_def Let_def registry_fail_def cleared_outcome_def
        list_sort_ordered list_sort_set list_sort_length
        split: option.splits prod.splits if_splits dest!: reconcile_lists)
  have sink: "ordered_by_priority (objects r') (ordered_sink_codecs_m r')"
    if "ordered_by_priority (objects r) (ordered_sink_codecs_m r)"
      and "user_config_target E r codec_user_config \<notin> Some ` set (ordered_sink_codecs_m r)"
      and "current_codec_config_m r \<notin> Some ` set (ordered_sink_codecs_m r)"
  proof -
    have "objects r' a = objects r a" if "a \<in> set (ordered_sink_codecs_m r)" for a
    proof (rule user_config_objects [OF assms(1)])
      show "Some a \<noteq> user_config_target E r codec_user_config"
        using that \<open>user_config_target E r codec_user_config \<notin> _\<close> by (metis image_eqI)
      show "Some a \<noteq> current_codec_config_m r"
        using that \<open>current_codec_config_m r \<notin> _\<close> by (metis image_eqI)
    qed
    then have "ordered_by_priority (objects r') (ordered_sink_codecs_m r) =
               ordered_by_priority (objects r) (ordered_sink_codecs_m r)"
      by (rule ordered_by_priority_cong)
    then show ?thesis using that(1) main by simp
  qed
  show ?thesis using main sink by blast
qed

lemmas registry_call_simps = A2dpCodecs_setCodecUserConfig_def A2dpCodecs_setCodecOtaConfig_def
  user_config_target_def reconcile_priority_def registry_fail_def cleared_outcome_def
  sample_registry_def user_configured_registry_def priority_request_def A2dpCodecConfig_new_def
  init_btav_a2dp_codec_config_def setCodecPriority_def setDefaultCodecPriority_def
  codecPriority_def codecIndex_def getCodecAudioConfig_def getCodecUserConfig_def
  compare_codec_priority_def ordered_by_priority_def isCodecConfigEmpty_def
  A2DP_SourceCodecIndex_def sbc_44100_stereo_def aac_wire_def unknown_tag_buffer_def
  empty_buffer_def

lemma raised_source_call_returns: "returned (snd raised_source_call)"
  by (simp add: raised_source_call_def registry_call_simps descriptor_call_simps sample_simps)

text \<open>
  The source codec of index 0 raised to the priority 4000 on the sample registry: the
  source list \<open>[2, 1, 0]\<close> becomes \<open>[2, 0, 1]\<close>, which is in order for the new
  priorities 5001, 4000 and 2001. Neither the target (address 0) nor the current codec
  (address 1) is in the sink list \<open>[4, 3]\<close>, which stays in order.
\<close>

theorem source_list_sorted_after_user_config_witness:
  "returned (snd raised_source_call) \<and>
   ordered_source_codecs_m (fst raised_source_call) = [2, 0, 1] \<and>
   ordered_by_priority (objects (fst raised_source_call))
     (ordered_source_codecs_m (fst raised_source_call)) \<and>
   ordered_sink_codecs_m (fst raised_source_call) = ordered_sink_codecs_m sample_registry \<and>
   ordered_by_priority (objects sample_registry) (ordered_sink_codecs_m sample_registry) \<and>
   user_config_target sample_env sample_registry (priority_request 0 4000) = Some 0 \<and>
   current_codec_config_m sample_registry = Some 1 \<and>
   ordered_sink_codecs_m sample_registry = [4, 3] \<and>
   ordered_by_priority (objects (fst raised_source_call))
     (ordered_sink_codecs_m (fst raised_source_call))"
proof -
  have call: "A2dpCodecs_setCodecUserConfig sample_env sample_setCodecConfig sample_registry
       (priority_request 0 4000) sbc_44100_stereo empty_buffer =
       (fst raised_source_call, snd raised_source_call)"
    by (simp add: raised_source_call_def)
  have l: "ordered_source_codecs_m (fst raised_source_call) = [2, 0, 1]"
    by (simp add: raised_source_call_def registry_call_simps descriptor_call_simps sample_simps)
  have before: "ordered_by_priority (objects sample_registry) (ordered_sink_codecs_m sample_registry)"
    "user_config_target sample_env sample_registry (priority_request 0 4000) = Some 0"
    "current_codec_config_m sample_registry = Some 1"
    "ordered_sink_codecs_m sample_registry = [4, 3]"
    by (simp_all add: registry_call_simps sample_simps)
  note result = source_list_sorted_after_user_config [OF call raised_source_call_returns]
  have source: "ordered_by_priority (objects (fst raised_source_call))
     (ordered_source_codecs_m (fst raised_source_call))"
    using result by simp
  have same: "ordered_sink_codecs_m (fst raised_source_call) = ordered_sink_codecs_m sample_registry"
    using result by simp
  have sink: "ordered_by_priority (objects (fst raised_source_call))
     (ordered_sink_codecs_m (fst raised_source_call))"
    using result [THEN conjunct2, THEN conjunct2, THEN conjunct2, THEN conjunct2] before
    by simp
  show ?thesis
    by (intro conjI raised_source_call_returns l source same before sink)
qed

text \<open>
  Against claim C3 as it is written: on the sample registry, whose sink list
  \<open>[4, 3]\<close> is in order, the user configuration gives the sink codec of index 11 the
  priority 500. The call succeeds, and the sink list, still \<open>[4, 3]\<close>, now has the
  priorities 500 and 11001 and is out of order.
\<close>

theorem sink_list_left_unsorted:
  "ordered_by_priority (objects sample_registry) (ordered_sink_codecs_m sample_registry) \<and>
   returned (snd lowered_sink_call) \<and>
   \<not> ordered_by_priority (objects (fst lowered_sink_call))
        (ordered_sink_codecs_m (fst lowered_sink_call))"
  by (simp add: lowered_sink_call_def registry_call_simps descriptor_call_simps sample_simps)

lemma registry_fail_current:
  "registry_fail r l out = (r', out') \<Longrightarrow> \<not> returned out' \<and> current_codec_config_m r' = l"
  by (auto simp: registry_fail_def)

text \<open>
  Claim C4. \<^verbatim>\<open>A2dpCodecs::setCodecOtaConfig\<close> returns false, with the current
  codec that of before the call, when the user configuration of the current codec is
  not empty, and when the user configuration of the enabled descriptor found for the
  peer buffer is not empty; and whenever it returns false, the current codec is that
  of before the call.
\<close>

theorem ota_config_rejected_and_current_restored:
  assumes "A2dpCodecs_setCodecOtaConfig E setCodecConfig r p_ota_codec_config p_result = (r', out)"
  shows "(current_codec_config_m r = Some c \<and>
          \<not> isCodecConfigEmpty E (codec_user_config_m (objects r c)) \<longrightarrow>
            \<not> returned out \<and> current_codec_config_m r' = current_codec_config_m r) \<and>
         (indexed_codecs_m r (A2DP_SourceCodecIndex E p_ota_codec_config) = Some t \<and>
          \<not> isCodecConfigEmpty E (codec_user_config_m (objects r t)) \<longrightarrow>
            \<not> returned out \<and> current_codec_config_m r' = current_codec_config_m r) \<and>
         (\<not> returned out \<longrightarrow> current_codec_config_m r' = current_codec_config_m r)"
  using assms
  by (auto simp: A2dpCodecs_setCodecOtaConfig_def Let_def getCodecUserConfig_def
      split: option.splits prod.splits if_splits dest!: registry_fail_current)

text \<open>
  The three cases on the sample registries: the current codec is user configured; the
  current codec is not but the descriptor the AAC buffer resolves to is; and a buffer
  of unknown tag, which fails for another reason and leaves the current codec too.
\<close>

theorem ota_config_rejected_and_current_restored_witness:
  "current_codec_config_m user_configured_registry = Some 1 \<and>
   \<not> isCodecConfigEmpty sample_env (codec_user_config_m (objects user_configured_registry 1)) \<and>
   \<not> returned (snd ota_on_user_configured) \<and>
   current_codec_config_m (fst ota_on_user_configured) = Some 1 \<and>
   isCodecConfigEmpty sample_env (codec_user_config_m (objects user_configured_registry 0)) \<and>
   indexed_codecs_m user_configured_registry (A2DP_SourceCodecIndex sample_env aac_wire) = Some 1 \<and>
   \<not> returned (snd ota_on_user_configured_target) \<and>
   current_codec_config_m (fst ota_on_user_configured_target) = Some 0 \<and>
   \<not> returned (snd ota_with_unknown_tag) \<and>
   current_codec_config_m (fst ota_with_unknown_tag) = Some 1"
proof -
  have c1: "A2dpCodecs_setCodecOtaConfig sample_env sample_setCodecConfig user_configured_registry
       aac_wire empty_buffer = (fst ota_on_user_configured, snd ota_on_user_configured)"
    by (simp add: ota_on_user_configured_def)
  have c2: "A2dpCodecs_setCodecOtaConfig sample_env sample_setCodecConfig
       (user_configured_registry\<lparr>current_codec_config_m := Some 0\<rparr>) aac_wire empty_buffer =
       (fst ota_on_user_configured_target, snd ota_on_user_configured_target)"
    by (simp add: ota_on_user_configured_target_def)
  have c3: "A2dpCodecs_setCodecOtaConfig sample_env sample_setCodecConfig sample_registry
       unknown_tag_buffer empty_buffer = (fst ota_with_unknown_tag, snd ota_with_unknown_tag)"
    by (simp add: ota_with_unknown_tag_def)
  have f: "current_codec_config_m user_configured_registry = Some 1"
    "current_codec_config_m sample_registry = Some 1"
    "\<not> isCodecConfigEmpty sample_env (codec_user_config_m (objects user_configured_registry 1))"
    "isCodecConfigEmpty sample_env (codec_user_config_m (objects user_configured_registry 0))"
    "indexed_codecs_m user_configured_registry (A2DP_SourceCodecIndex sample_env aac_wire) = Some 1"
    "\<not> returned (snd ota_with_unknown_tag)"
    by (simp_all add: ota_with_unknown_tag_def registry_call_simps descriptor_call_simps sample_simps)
  show ?thesis
    using ota_config_rejected_and_current_restored [OF c1, where c = 1]
      ota_config_rejected_and_current_restored [OF c2, where t = 1]
      ota_config_rejected_and_current_restored [OF c3] f
    by simp
qed

lemma descriptor_updated:
  "A2dpCodecConfig_setCodecUserConfig E setCodecConfig this u a p c res = (this', out) \<Longrightarrow>
   p_config_updated out = (p_restart_input out \<or> p_restart_output out)"
  by (auto simp: A2dpCodecConfig_setCodecUserConfig_def Let_def split: prod.splits if_splits)

text \<open>
  Claim C5. In \<^verbatim>\<open>A2dpCodecs::setCodecUserConfig\<close>, when the descriptor call has
  succeeded on the target \<open>t\<close>, there was a current codec \<open>l\<close> other than \<open>t\<close>, and the
  recomputed priority of the target is above its old priority and not below the
  priority of \<open>l\<close>: the call returns true, the target is the current codec, the old
  current descriptor has gone through \<^verbatim>\<open>setDefaultCodecPriority\<close> (its priority is
  its construction priority if that is not the default, and
  \<open>1000 * (index + 1) + 1\<close> otherwise), and the three flags are set. The old priority
  is the one the code reads, after the descriptor call.
\<close>

theorem switch_to_raised_codec:
  assumes "A2dpCodecs_setCodecUserConfig E setCodecConfig r codec_user_config
             p_peer_sink_capabilities p_result = (r', out)"
      and "user_config_target E r codec_user_config = Some t"
      and "A2dpCodecConfig_setCodecUserConfig E setCodecConfig (objects r t) codec_user_config
             (getCodecAudioConfig (objects r t)) p_peer_sink_capabilities True p_result =
             (this', descriptor_out)"
      and "returned descriptor_out"
      and "current_codec_config_m r = Some l"
      and "t \<noteq> l"
      and "codecPriority (setCodecPriority E this' (codec_priority codec_user_config)) >
             codecPriority this'"
      and "codecPriority (setCodecPriority E this' (codec_priority codec_user_config)) \<ge>
             codecPriority (objects r l)"
  shows "returned out \<and>
         current_codec_config_m r' = Some t \<and>
         objects r' l = setDefaultCodecPriority E (objects r l) \<and>
         codecPriority (objects r' l) =
           (if default_codec_priority_m (objects r l) \<noteq> BTAV_A2DP_CODEC_PRIORITY_DEFAULT (cst E)
            then default_codec_priority_m (objects r l)
            else sint (word_of_int (1000 * (codec_index_m (objects r l) + 1) + 1) :: 32 word)) \<and>
         p_restart_input out \<and> p_restart_output out \<and> p_config_updated out"
  using assms
  by (auto simp: A2dpCodecs_setCodecUserConfig_def reconcile_priority_def Let_def
      setDefaultCodecPriority_def codecPriority_def)

text \<open>
  The scenario of the specification on the sample registry: the codec of index 1
  (priority 2001) is current, the user gives the codec of index 0 (priority 1001) the
  priority 4000. The codec of index 0 becomes current, the former current codec has
  its computed default 2001, and the three flags are set.
\<close>

theorem switch_to_raised_codec_witness:
  "user_config_target sample_env sample_registry (priority_request 0 4000) = Some 0 \<and>
   returned (snd first_source_negotiation) \<and>
   current_codec_config_m sample_registry = Some 1 \<and>
   codecPriority (fst first_source_negotiation) = 1001 \<and>
   codecPriority (setCodecPriority sample_env (fst first_source_negotiation) 4000) = 4000 \<and>
   codecPriority (objects sample_registry 1) = 2001 \<and>
   returned (snd raised_source_call) \<and>
   current_codec_config_m (fst raised_source_call) = Some 0 \<and>
   codecPriority (objects (fst raised_source_call) 1) = 2001 \<and>
   p_restart_input (snd raised_source_call) \<and> p_restart_output (snd raised_source_call) \<and>
   p_config_updated (snd raised_source_call)"
proof -
  have call: "A2dpCodecs_setCodecUserConfig sample_env sample_setCodecConfig sample_registry
       (priority_request 0 4000) sbc_44100_stereo empty_buffer =
       (fst raised_source_call, snd raised_source_call)"
    by (simp add: raised_source_call_def)
  have target: "user_config_target sample_env sample_registry (priority_request 0 4000) = Some 0"
    by (simp add: registry_call_simps sample_simps)
  have desc: "A2dpCodecConfig_setCodecUserConfig sample_env sample_setCodecConfig
       (objects sample_registry 0) (priority_request 0 4000)
       (getCodecAudioConfig (objects sample_registry 0)) sbc_44100_stereo True empty_buffer =
       (fst first_source_negotiation, snd first_source_negotiation)"
    by (simp add: first_source_negotiation_def)
  have ok: "returned (snd first_source_negotiation)"
    by (simp add: first_source_negotiation_def registry_call_simps descriptor_call_simps
        sample_simps)
  have cur: "current_codec_config_m sample_registry = Some 1"
    by (simp add: sample_registry_def)
  have prio: "codecPriority (fst first_source_negotiation) = 1001"
    "codecPriority (setCodecPriority sample_env (fst first_source_negotiation) 4000) = 4000"
    "codec_priority (priority_request 0 4000) = 4000"
    "codecPriority (objects sample_registry 1) = 2001"
    "codecPriority (setDefaultCodecPriority sample_env (objects sample_registry 1)) = 2001"
    "default_codec_priority_m (objects sample_registry 1) = 0"
    "codec_index_m (objects sample_registry 1) = 1"
    "BTAV_A2DP_CODEC_PRIORITY_DEFAULT (cst sample_env) = 0"
    by (simp_all add: first_source_negotiation_def registry_call_simps descriptor_call_simps
        sample_simps)
  have neq: "(0::nat) \<noteq> 1"
    by simp
  have gt: "codecPriority (setCodecPriority sample_env (fst first_source_negotiation)
       (codec_priority (priority_request 0 4000))) > codecPriority (fst first_source_negotiation)"
    by (simp add: prio)
  have ge: "codecPriority (setCodecPriority sample_env (fst first_source_negotiation)
       (codec_priority (priority_request 0 4000))) \<ge> codecPriority (objects sample_registry 1)"
    using prio by simp
  show ?thesis
    using switch_to_raised_codec [OF call target desc ok cur neq gt ge] target ok cur prio
    by simp
qed

text \<open>
  Claim C6. In \<^verbatim>\<open>A2dpCodecs::setCodecUserConfig\<close>, when the descriptor call has
  succeeded on the target \<open>t\<close>, there was a current codec \<open>l\<close> other than \<open>t\<close>, and the
  recomputed priority of the target is not above its old priority: the call returns
  true, the current codec is unchanged, \<^verbatim>\<open>config_updated\<close> is set exactly when the
  priority changed or the descriptor call had set one of the restart flags, and both
  restart flags are returned clear.
\<close>

theorem lowered_backup_codec_keeps_current:
  assumes "A2dpCodecs_setCodecUserConfig E setCodecConfig r codec_user_config
             p_peer_sink_capabilities p_result = (r', out)"
      and "user_config_target E r codec_user_config = Some t"
      and "A2dpCodecConfig_setCodecUserConfig E setCodecConfig (objects r t) codec_user_config
             (getCodecAudioConfig (objects r t)) p_peer_sink_capabilities True p_result =
             (this', descriptor_out)"
      and "returned descriptor_out"
      and "current_codec_config_m r = Some l"
      and "t \<noteq> l"
      and "codecPriority (setCodecPriority E this' (codec_priority codec_user_config)) \<le>
             codecPriority this'"
  shows "returned out \<and>
         current_codec_config_m r' = current_codec_config_m r \<and>
         (p_config_updated out \<longleftrightarrow>
            codecPriority (setCodecPriority E this' (codec_priority codec_user_config)) \<noteq>
              codecPriority this' \<or>
            p_restart_input descriptor_out \<or> p_restart_output descriptor_out) \<and>
         \<not> p_restart_input out \<and> \<not> p_restart_output out"
  using assms descriptor_updated [OF assms(3)]
  by (auto simp: A2dpCodecs_setCodecUserConfig_def reconcile_priority_def Let_def)

text \<open>
  On the sample registry the user gives the codec of index 0, which is not current,
  the priority 500. The descriptor call sets \<^verbatim>\<open>restart_input\<close> (it is the first
  negotiation of that codec); the registry returns both restart flags clear, keeps the
  current codec and reports the update.
\<close>

theorem lowered_backup_codec_keeps_current_witness:
  "user_config_target sample_env sample_registry (priority_request 0 500) = Some 0 \<and>
   returned (snd first_source_negotiation_low) \<and>
   p_restart_input (snd first_source_negotiation_low) \<and>
   current_codec_config_m sample_registry = Some 1 \<and>
   codecPriority (fst first_source_negotiation_low) = 1001 \<and>
   codecPriority (setCodecPriority sample_env (fst first_source_negotiation_low) 500) = 500 \<and>
   returned (snd lowered_source_call) \<and>
   current_codec_config_m (fst lowered_source_call) = Some 1 \<and>
   p_config_updated (snd lowered_source_call) \<and>
   \<not> p_restart_input (snd lowered_source_call) \<and> \<not> p_restart_output (snd lowered_source_call)"
proof -
  have call: "A2dpCodecs_setCodecUserConfig sample_env sample_setCodecConfig sample_registry
       (priority_request 0 500) sbc_44100_stereo empty_buffer =
       (fst lowered_source_call, snd lowered_source_call)"
    by (simp add: lowered_source_call_def)
  have target: "user_config_target sample_env sample_registry (priority_request 0 500) = Some 0"
    by (simp add: registry_call_simps sample_simps)
  have desc: "A2dpCodecConfig_setCodecUserConfig sample_env sample_setCodecConfig
       (objects sample_registry 0) (priority_request 0 500)
       (getCodecAudioConfig (objects sample_registry 0)) sbc_44100_stereo True empty_buffer =
       (fst first_source_negotiation_low, snd first_source_negotiation_low)"
    by (simp add: first_source_negotiation_low_def)
  have ok: "returned (snd first_source_negotiation_low)"
    "p_restart_input (snd first_source_negotiation_low)"
    by (simp_all add: first_source_negotiation_low_def registry_call_simps descriptor_call_simps
        sample_simps)
  have cur: "current_codec_config_m sample_registry = Some 1"
    by (simp add: sample_registry_def)
  have prio: "codecPriority (fst first_source_negotiation_low) = 1001"
    "codecPriority (setCodecPriority sample_env (fst first_source_negotiation_low) 500) = 500"
    "codec_priority (priority_request 0 500) = 500"
    by (simp_all add: first_source_negotiation_low_def registry_call_simps descriptor_call_simps
        sample_simps)
  have neq: "(0::nat) \<noteq> 1"
    by simp
  have le: "codecPriority (setCodecPriority sample_env (fst first_source_negotiation_low)
       (codec_priority (priority_request 0 500))) \<le> codecPriority (fst first_source_negotiation_low)"
    by (simp add: prio)
  show ?thesis
    using lowered_backup_codec_keeps_current [OF call target desc ok(1) cur neq le] target ok cur prio
    by simp
qed

end
